theory Spec2Isabelle
  imports Complex_Main
begin

section \<open>Python values used by the notebook\<close>

text \<open>
  The exceptions the modelled code can raise. \<open>ZeroDivisionError\<close> is Python's own
  (a division by \<open>len(iterator) = 0\<close>); \<open>RuntimeError\<close> is what the tensor library
  raises (a tensor that does not require grad given to \<open>backward\<close>, a tensor of several
  elements given to \<open>item\<close>, shapes that do not broadcast).
\<close>

datatype error = ZeroDivisionError | RuntimeError

text \<open>
  A Python \<open>float\<close>: a finite value, the two infinities, or not-a-number. Finite values
  are exact reals: the rounding of floating-point arithmetic is not modelled, the special
  values (\<open>float('inf')\<close> of the epoch loop, and NaN, which no comparison accepts) are.
\<close>

datatype pyfloat = Fin real | PInf | NInf | NaN

text \<open>\<open>a < b\<close> on floats: false as soon as one side is NaN.\<close>

fun flt :: "pyfloat \<Rightarrow> pyfloat \<Rightarrow> bool" where
  "flt (Fin a) (Fin b) = (a < b)"
| "flt (Fin a) PInf = True"
| "flt NInf (Fin b) = True"
| "flt NInf PInf = True"
| "flt _ _ = False"

text \<open>\<open>a == b\<close> on floats: NaN equals nothing, itself included.\<close>

fun feq :: "pyfloat \<Rightarrow> pyfloat \<Rightarrow> bool" where
  "feq (Fin a) (Fin b) = (a = b)"
| "feq PInf PInf = True"
| "feq NInf NInf = True"
| "feq _ _ = False"

text \<open>\<open>a + b\<close> on floats (\<open>inf + -inf\<close> is NaN, NaN is absorbing).\<close>

fun fadd :: "pyfloat \<Rightarrow> pyfloat \<Rightarrow> pyfloat" where
  "fadd (Fin a) (Fin b) = Fin (a + b)"
| "fadd NaN _ = NaN"
| "fadd _ NaN = NaN"
| "fadd PInf NInf = NaN"
| "fadd NInf PInf = NaN"
| "fadd PInf _ = PInf"
| "fadd _ PInf = PInf"
| "fadd NInf _ = NInf"
| "fadd _ NInf = NInf"

text \<open>
  \<open>x / n\<close> for a float \<open>x\<close> and \<open>n = len(iterator)\<close>, a non-negative integer: Python
  raises \<open>ZeroDivisionError\<close> when \<open>n\<close> is zero, whatever \<open>x\<close> is (also for the
  integer \<open>0\<close> the accumulators start from).
\<close>

definition fdiv_len :: "pyfloat \<Rightarrow> nat \<Rightarrow> error + pyfloat" where
  "fdiv_len x n =
     (if n = 0 then Inl ZeroDivisionError
      else Inr (case x of Fin a \<Rightarrow> Fin (a / real n) | PInf \<Rightarrow> PInf | NInf \<Rightarrow> NInf | NaN \<Rightarrow> NaN))"

text \<open>\<open>xs[:k]\<close> for a Python integer \<open>k\<close>: a negative \<open>k\<close> counts from the end.\<close>

definition py_slice_to :: "'a list \<Rightarrow> int \<Rightarrow> 'a list" where
  "py_slice_to xs k = (if 0 \<le> k then take (nat k) xs else take (nat (int (length xs) + k)) xs)"

section \<open>Tokenizer and special tokens (lines 38-90)\<close>

text \<open>
  The pretrained tokenizer is a library object; the model takes what the notebook uses of
  it: \<open>tokenize\<close>, the vocabulary lookup of one token (with the library's fallback to
  the unknown token), and the four special tokens.
\<close>

record tokenizer =
  tokenize :: "string \<Rightarrow> string list"
  vocab_id :: "string \<Rightarrow> int"
  cls_token :: string
  sep_token :: string
  pad_token :: string
  unk_token :: string

text \<open>\<open>tokenizer.convert_tokens_to_ids(tokens)\<close> on a list: one id per token, in order.\<close>

definition convert_tokens_to_ids :: "tokenizer \<Rightarrow> string list \<Rightarrow> int list" where
  "convert_tokens_to_ids tk tokens = map (vocab_id tk) tokens"

definition init_token_idx :: "tokenizer \<Rightarrow> int" where
  "init_token_idx tk = vocab_id tk (cls_token tk)"

definition eos_token_idx :: "tokenizer \<Rightarrow> int" where
  "eos_token_idx tk = vocab_id tk (sep_token tk)"

definition pad_token_idx :: "tokenizer \<Rightarrow> int" where
  "pad_token_idx tk = vocab_id tk (pad_token tk)"

definition unk_token_idx :: "tokenizer \<Rightarrow> int" where
  "unk_token_idx tk = vocab_id tk (unk_token tk)"

text \<open>
  Modelled from the spec: \<open>max_input_length\<close> is read from the tokenizer library's table
  \<open>max_model_input_sizes\<close>, which is not part of the repository; the notebook's text
  (line 81) and the spec's data model give its value, 512.
\<close>

definition max_input_length :: int where
  "max_input_length = 512"

definition tokenize_and_cut :: "tokenizer \<Rightarrow> string \<Rightarrow> string list" where
  "tokenize_and_cut tk sentence =
     (let tokens = tokenize tk sentence;
          tokens = py_slice_to tokens (max_input_length - 2)
      in tokens)"

section \<open>Tensors, parameters and the tensor library\<close>

text \<open>
  A tensor as the code sees it: its numbers, its \<open>requires_grad\<close> flag and its
  \<open>grad\<close> attribute (\<open>None\<close> until a backward pass fills it). A module parameter
  is such a tensor.
\<close>

record 'a tensor =
  data :: 'a
  requires_grad :: bool
  grad :: "'a option"

text \<open>\<open>nn.Parameter(v)\<close>: the library's default is \<open>requires_grad = True\<close>.\<close>

definition Parameter :: "'a \<Rightarrow> 'a tensor" where
  "Parameter v = \<lparr>data = v, requires_grad = True, grad = None\<rparr>"

text \<open>
  The result of a differentiable library operation. The library records the operation for
  a later backward pass (the result requires grad) exactly when grad mode is enabled and
  one of the inputs requires grad.
\<close>

definition torch_op :: "bool \<Rightarrow> bool list \<Rightarrow> 'a \<Rightarrow> 'a tensor" where
  "torch_op grad_enabled inputs v =
     \<lparr>data = v, requires_grad = (grad_enabled \<and> True \<in> set inputs), grad = None\<rparr>"

record gru_config =
  input_size :: nat
  hidden_size :: nat
  num_layers :: nat
  bidirectional :: bool
  gru_dropout :: real

text \<open>
  The numeric library, taken as a parameter: what its layers compute is not part of the
  repository. \<open>'v\<close> is the type of tensor contents, \<open>'os\<close> the optimizer's state for
  one parameter. Layers are given per example (one row of the batch): the encoder, the
  recurrent network and the linear layer treat the rows of a batch independently, and the
  linear layer has the one output unit the notebook configures (\<open>OUTPUT_DIM = 1\<close>), so its
  result for a row is one logit.
\<close>

record ('v, 'os) torch =
  GRU_init :: "gru_config \<Rightarrow> (string \<times> 'v) list"
  Linear_init :: "nat \<Rightarrow> nat \<Rightarrow> (string \<times> 'v) list"
  bert_call :: "(string \<times> 'v) list \<Rightarrow> bool \<Rightarrow> int list \<Rightarrow> 'v"
  GRU_call :: "gru_config \<Rightarrow> (string \<times> 'v) list \<Rightarrow> bool \<Rightarrow> 'v \<Rightarrow> 'v"
  select_layer :: "int \<Rightarrow> 'v \<Rightarrow> 'v"
  cat :: "'v \<Rightarrow> 'v \<Rightarrow> 'v"
  Dropout_call :: "real \<Rightarrow> bool \<Rightarrow> 'v \<Rightarrow> 'v"
  Linear_call :: "(string \<times> 'v) list \<Rightarrow> 'v \<Rightarrow> pyfloat"
  autograd :: "(string \<times> 'v) list \<Rightarrow> bool \<Rightarrow> (int list \<times> pyfloat) list \<Rightarrow> string \<Rightarrow> 'v"
  tensor_add :: "'v \<Rightarrow> 'v \<Rightarrow> 'v"
  adam_update :: "'os option \<Rightarrow> 'v \<Rightarrow> 'v \<Rightarrow> 'v \<times> 'os"

section \<open>The model (lines 142-240)\<close>

text \<open>The pretrained encoder handed to the constructor: its named parameters and the
  \<open>hidden_size\<close> entry of its configuration.\<close>

record 'v BertModel =
  bert_parameters :: "(string \<times> 'v tensor) list"
  config_hidden_size :: nat

text \<open>
  \<open>training\<close> is the mode flag of the module tree: \<open>train()\<close> and \<open>eval()\<close> set it on
  the module and all its submodules, and every forward pass of the notebook follows one
  of the two calls.
\<close>

record 'v BERTGRUSentiment =
  bert :: "(string \<times> 'v tensor) list"
  rnn :: "(string \<times> 'v tensor) list"
  rnn_config :: gru_config
  out :: "(string \<times> 'v tensor) list"
  dropout :: real
  training :: bool

definition new_parameters :: "(string \<times> 'v) list \<Rightarrow> (string \<times> 'v tensor) list" where
  "new_parameters nvs = map (\<lambda>(n, v). (n, Parameter v)) nvs"

definition BERTGRUSentiment_init ::
  "('v, 'os) torch \<Rightarrow> 'v BertModel \<Rightarrow> nat \<Rightarrow> nat \<Rightarrow> nat \<Rightarrow> bool \<Rightarrow> real \<Rightarrow> 'v BERTGRUSentiment" where
  "BERTGRUSentiment_init L bert_model hidden_dim output_dim n_layers bidir dropout_p =
     (let embedding_dim = config_hidden_size bert_model;
          cfg = \<lparr>input_size = embedding_dim, hidden_size = hidden_dim, num_layers = n_layers,
                 bidirectional = bidir,
                 gru_dropout = (if n_layers < 2 then 0 else dropout_p)\<rparr>
      in \<lparr>bert = bert_parameters bert_model,
          rnn = new_parameters (GRU_init L cfg),
          rnn_config = cfg,
          out = new_parameters
                  (Linear_init L (if bidir then hidden_dim * 2 else hidden_dim) output_dim),
          dropout = dropout_p,
          training = True\<rparr>)"

definition add_prefix :: "string \<Rightarrow> (string \<times> 'a) list \<Rightarrow> (string \<times> 'a) list" where
  "add_prefix pre nps = map (\<lambda>(n, p). (pre @ n, p)) nps"

text \<open>\<open>model.named_parameters()\<close>: each submodule's parameters under the attribute's name.\<close>

definition named_parameters :: "'v BERTGRUSentiment \<Rightarrow> (string \<times> 'v tensor) list" where
  "named_parameters m =
     add_prefix ''bert.'' (bert m) @ add_prefix ''rnn.'' (rnn m) @ add_prefix ''out.'' (out m)"

text \<open>An in-place update of every parameter, told the parameter's full name.\<close>

definition update_named :: "string \<Rightarrow> (string \<Rightarrow> 'a \<Rightarrow> 'a) \<Rightarrow> (string \<times> 'a) list \<Rightarrow> (string \<times> 'a) list" where
  "update_named pre f nps = map (\<lambda>(n, p). (n, f (pre @ n) p)) nps"

definition update_parameters ::
  "(string \<Rightarrow> 'v tensor \<Rightarrow> 'v tensor) \<Rightarrow> 'v BERTGRUSentiment \<Rightarrow> 'v BERTGRUSentiment" where
  "update_parameters f m =
     m\<lparr>bert := update_named ''bert.'' f (bert m),
       rnn := update_named ''rnn.'' f (rnn m),
       out := update_named ''out.'' f (out m)\<rparr>"

text \<open>\<open>name.startswith(p)\<close>.\<close>

definition startswith :: "string \<Rightarrow> string \<Rightarrow> bool" where
  "startswith name p = (take (length p) name = p)"

text \<open>Lines 234-236: the loop over \<open>named_parameters\<close> with the name test.\<close>

definition freeze_by_name :: "'v BERTGRUSentiment \<Rightarrow> 'v BERTGRUSentiment" where
  "freeze_by_name m =
     update_parameters
       (\<lambda>name param. if startswith name ''bert'' then param\<lparr>requires_grad := False\<rparr> else param) m"

text \<open>Lines 239-240: the loop over \<open>model.bert.parameters()\<close>.\<close>

definition freeze_bert :: "'v BERTGRUSentiment \<Rightarrow> 'v BERTGRUSentiment" where
  "freeze_bert m = m\<lparr>bert := map (\<lambda>(n, param). (n, param\<lparr>requires_grad := False\<rparr>)) (bert m)\<rparr>"

definition freeze :: "'v BERTGRUSentiment \<Rightarrow> 'v BERTGRUSentiment" where
  "freeze m = freeze_bert (freeze_by_name m)"

text \<open>\<open>model.state_dict()\<close>: the contents of every parameter, by name.\<close>

definition state_dict :: "'v BERTGRUSentiment \<Rightarrow> (string \<times> 'v) list" where
  "state_dict m = map (\<lambda>(n, p). (n, data p)) (named_parameters m)"

definition weights :: "(string \<times> 'v tensor) list \<Rightarrow> (string \<times> 'v) list" where
  "weights nps = map (\<lambda>(n, p). (n, data p)) nps"

definition grad_flags :: "(string \<times> 'v tensor) list \<Rightarrow> bool list" where
  "grad_flags nps = map (\<lambda>(n, p). requires_grad p) nps"

text \<open>
  Lines 168-192. \<open>grad_enabled\<close> is the library's grad mode at the call. The encoder runs
  inside \<open>with torch.no_grad()\<close>, so its operation is recorded with grad mode off; the
  recurrent network, the dropout and the linear layer run in the caller's mode.
\<close>

definition forward ::
  "('v, 'os) torch \<Rightarrow> 'v BERTGRUSentiment \<Rightarrow> bool \<Rightarrow> int list list \<Rightarrow> (pyfloat list) tensor" where
  "forward L self grad_enabled txt =
     (let embedded = torch_op False (grad_flags (bert self))
                       (map (bert_call L (weights (bert self)) (training self)) txt);
          hidden = torch_op grad_enabled (requires_grad embedded # grad_flags (rnn self))
                     (map (GRU_call L (rnn_config self) (weights (rnn self)) (training self))
                        (data embedded));
          hidden =
            (if bidirectional (rnn_config self)
             then torch_op grad_enabled [requires_grad hidden]
                    (map (\<lambda>h. Dropout_call L (dropout self) (training self)
                                 (cat L (select_layer L (- 2) h) (select_layer L (- 1) h)))
                       (data hidden))
             else torch_op grad_enabled [requires_grad hidden]
                    (map (\<lambda>h. Dropout_call L (dropout self) (training self)
                                 (select_layer L (- 1) h))
                       (data hidden)));
          output = torch_op grad_enabled (requires_grad hidden # grad_flags (out self))
                     (map (Linear_call L (weights (out self))) (data hidden))
      in output)"

section \<open>Accuracy, training and evaluation (lines 262-356)\<close>

text \<open>\<open>torch.sigmoid\<close> on one element.\<close>

definition fsigmoid :: "pyfloat \<Rightarrow> pyfloat" where
  "fsigmoid x =
     (case x of Fin a \<Rightarrow> Fin (1 / (1 + exp (- a))) | PInf \<Rightarrow> Fin 1 | NInf \<Rightarrow> Fin 0 | NaN \<Rightarrow> NaN)"

text \<open>\<open>torch.round\<close> on one element: to the nearest integer, a tie to the even one.\<close>

definition round_half_even :: "real \<Rightarrow> int" where
  "round_half_even x =
     (let f = \<lfloor>x\<rfloor>; d = x - of_int f
      in if d < 1 / 2 then f else if 1 / 2 < d then f + 1 else if even f then f else f + 1)"

definition fround :: "pyfloat \<Rightarrow> pyfloat" where
  "fround x =
     (case x of Fin a \<Rightarrow> Fin (of_int (round_half_even a)) | PInf \<Rightarrow> PInf | NInf \<Rightarrow> NInf
      | NaN \<Rightarrow> NaN)"

text \<open>
  \<open>a == b\<close> on two one-dimensional tensors: elementwise; a tensor of one element is
  broadcast against the other; any other pair of different lengths is an error.
\<close>

definition tensor_eq :: "pyfloat list \<Rightarrow> pyfloat list \<Rightarrow> error + bool list" where
  "tensor_eq xs ys =
     (if length xs = length ys then Inr (map2 feq xs ys)
      else if length ys = 1 then Inr (map (\<lambda>x. feq x (hd ys)) xs)
      else if length xs = 1 then Inr (map (\<lambda>y. feq (hd xs) y) ys)
      else Inl RuntimeError)"

text \<open>\<open>.float()\<close> of a boolean tensor, and \<open>.mean()\<close> (NaN for a tensor of no element).\<close>

definition to_float :: "bool list \<Rightarrow> real list" where
  "to_float bs = map (\<lambda>b. if b then 1 else 0) bs"

definition tensor_mean :: "real list \<Rightarrow> pyfloat" where
  "tensor_mean xs = (if xs = [] then NaN else Fin (sum_list xs / real (length xs)))"

definition binary_accuracy :: "pyfloat list \<Rightarrow> pyfloat list \<Rightarrow> error + pyfloat" where
  "binary_accuracy preds y =
     (let rounded_preds = map fround (map fsigmoid preds)
      in case tensor_eq rounded_preds y of
           Inl e \<Rightarrow> Inl e
         | Inr eq \<Rightarrow> (let correct = to_float eq; acc = tensor_mean correct in Inr acc))"

text \<open>
  A batch: its examples, each a row of token ids (padded to the batch's length) with its
  label; \<open>batch.text\<close> and \<open>batch.label\<close> are the two columns. An iterator is the list
  of its batches, and \<open>len(iterator)\<close> their number.
\<close>

type_synonym batch = "(int list \<times> pyfloat) list"

definition batch_text :: "batch \<Rightarrow> int list list" where
  "batch_text b = map fst b"

definition batch_label :: "batch \<Rightarrow> pyfloat list" where
  "batch_label b = map snd b"

text \<open>
  The optimizer (\<open>optim.Adam(model.parameters())\<close>, line 264) holds every parameter of
  the model and its own state per parameter, none before the first step.
\<close>

record 'os optimizer =
  opt_state :: "string \<rightharpoonup> 'os"

definition Adam :: "'os optimizer" where
  "Adam = \<lparr>opt_state = Map.empty\<rparr>"

text \<open>\<open>optimizer.zero_grad()\<close>: every parameter's \<open>grad\<close> is reset to \<open>None\<close>.\<close>

definition zero_grad :: "'v BERTGRUSentiment \<Rightarrow> 'v BERTGRUSentiment" where
  "zero_grad m = update_parameters (\<lambda>name p. p\<lparr>grad := None\<rparr>) m"

text \<open>
  \<open>loss.backward()\<close>: a gradient is accumulated into every parameter that requires grad
  and whose use was recorded. The encoder's parameters are used under \<open>no_grad\<close> only
  (line 172), so the pass reaches the recurrent network and the linear layer and no other.
\<close>

definition accumulate_grad :: "('v, 'os) torch \<Rightarrow> 'v \<Rightarrow> 'v tensor \<Rightarrow> 'v tensor" where
  "accumulate_grad L g p =
     (if requires_grad p
      then p\<lparr>grad := Some (case grad p of None \<Rightarrow> g | Some g0 \<Rightarrow> tensor_add L g0 g)\<rparr>
      else p)"

definition backward :: "('v, 'os) torch \<Rightarrow> 'v BERTGRUSentiment \<Rightarrow> batch \<Rightarrow> 'v BERTGRUSentiment" where
  "backward L m b =
     m\<lparr>rnn := update_named ''rnn.''
                (\<lambda>name p. accumulate_grad L (autograd L (state_dict m) (training m) b name) p) (rnn m),
       out := update_named ''out.''
                (\<lambda>name p. accumulate_grad L (autograd L (state_dict m) (training m) b name) p) (out m)\<rparr>"

text \<open>\<open>optimizer.step()\<close>: a parameter whose \<open>grad\<close> is \<open>None\<close> is skipped.\<close>

definition step_parameter :: "('v, 'os) torch \<Rightarrow> 'os optimizer \<Rightarrow> string \<Rightarrow> 'v tensor \<Rightarrow> 'v tensor" where
  "step_parameter L opt name p =
     (case grad p of
        None \<Rightarrow> p
      | Some g \<Rightarrow> p\<lparr>data := fst (adam_update L (opt_state opt name) (data p) g)\<rparr>)"

definition step_state :: "('v, 'os) torch \<Rightarrow> (string \<times> 'v tensor) \<Rightarrow> (string \<rightharpoonup> 'os) \<Rightarrow> (string \<rightharpoonup> 'os)" where
  "step_state L np st =
     (case grad (snd np) of
        None \<Rightarrow> st
      | Some g \<Rightarrow> st(fst np \<mapsto> snd (adam_update L (st (fst np)) (data (snd np)) g)))"

definition optimizer_step ::
  "('v, 'os) torch \<Rightarrow> 'os optimizer \<Rightarrow> 'v BERTGRUSentiment \<Rightarrow> 'os optimizer \<times> 'v BERTGRUSentiment" where
  "optimizer_step L opt m =
     (opt\<lparr>opt_state := fold (step_state L) (named_parameters m) (opt_state opt)\<rparr>,
      update_parameters (step_parameter L opt) m)"

text \<open>
  Lines 302-325, the body of the training loop for one batch: the new model and optimizer
  with \<open>loss.item()\<close> and \<open>acc.item()\<close>, or the exception raised. The loop runs at the
  notebook's top level, where grad mode is enabled.
\<close>

definition train_batch ::
  "('v, 'os) torch \<Rightarrow> (pyfloat list \<Rightarrow> pyfloat list \<Rightarrow> pyfloat) \<Rightarrow> 'v BERTGRUSentiment \<Rightarrow>
   'os optimizer \<Rightarrow> batch \<Rightarrow> (error + pyfloat \<times> pyfloat) \<times> 'v BERTGRUSentiment \<times> 'os optimizer" where
  "train_batch L criterion model opt b =
     (let txt = batch_text b; labels = batch_label b;
          model = zero_grad model;
          predictions = forward L model True txt;
          loss = torch_op True [requires_grad predictions] (criterion (data predictions) labels)
      in case binary_accuracy (data predictions) labels of
           Inl e \<Rightarrow> (Inl e, model, opt)
         | Inr acc \<Rightarrow>
             if \<not> requires_grad loss then (Inl RuntimeError, model, opt)
             else (let model = backward L model b;
                       (opt, model) = optimizer_step L opt model
                   in (Inr (data loss, acc), model, opt)))"

fun train_loop ::
  "('v, 'os) torch \<Rightarrow> (pyfloat list \<Rightarrow> pyfloat list \<Rightarrow> pyfloat) \<Rightarrow> 'v BERTGRUSentiment \<Rightarrow>
   'os optimizer \<Rightarrow> batch list \<Rightarrow> pyfloat \<Rightarrow> pyfloat \<Rightarrow>
   (error + pyfloat \<times> pyfloat) \<times> 'v BERTGRUSentiment \<times> 'os optimizer" where
  "train_loop L criterion model opt [] epoch_loss epoch_acc =
     (Inr (epoch_loss, epoch_acc), model, opt)"
| "train_loop L criterion model opt (b # rest) epoch_loss epoch_acc =
     (case train_batch L criterion model opt b of
        (Inl e, model, opt) \<Rightarrow> (Inl e, model, opt)
      | (Inr (loss, acc), model, opt) \<Rightarrow>
          train_loop L criterion model opt rest (fadd epoch_loss loss) (fadd epoch_acc acc))"

text \<open>The final line of both loops: \<open>epoch_loss / len(iterator), epoch_acc / len(iterator)\<close>.\<close>

definition epoch_means :: "pyfloat \<Rightarrow> pyfloat \<Rightarrow> nat \<Rightarrow> error + pyfloat \<times> pyfloat" where
  "epoch_means epoch_loss epoch_acc n =
     (case fdiv_len epoch_loss n of
        Inl e \<Rightarrow> Inl e
      | Inr l \<Rightarrow> (case fdiv_len epoch_acc n of Inl e \<Rightarrow> Inl e | Inr a \<Rightarrow> Inr (l, a)))"

definition train ::
  "('v, 'os) torch \<Rightarrow> 'v BERTGRUSentiment \<Rightarrow> batch list \<Rightarrow> 'os optimizer \<Rightarrow>
   (pyfloat list \<Rightarrow> pyfloat list \<Rightarrow> pyfloat) \<Rightarrow>
   (error + pyfloat \<times> pyfloat) \<times> 'v BERTGRUSentiment \<times> 'os optimizer" where
  "train L model iterator opt criterion =
     (let model = model\<lparr>training := True\<rparr>
      in case train_loop L criterion model opt iterator (Fin 0) (Fin 0) of
           (Inl e, model, opt) \<Rightarrow> (Inl e, model, opt)
         | (Inr (epoch_loss, epoch_acc), model, opt) \<Rightarrow>
             (epoch_means epoch_loss epoch_acc (length iterator), model, opt))"

text \<open>
  Lines 340-353, the body of the evaluation loop for one batch, inside
  \<open>with torch.no_grad()\<close>: grad mode is off for the forward pass and the loss.
\<close>

definition evaluate_batch ::
  "('v, 'os) torch \<Rightarrow> (pyfloat list \<Rightarrow> pyfloat list \<Rightarrow> pyfloat) \<Rightarrow> 'v BERTGRUSentiment \<Rightarrow>
   batch \<Rightarrow> error + pyfloat \<times> pyfloat" where
  "evaluate_batch L criterion model b =
     (let txt = batch_text b; labels = batch_label b;
          predictions = forward L model False txt;
          loss = torch_op False [requires_grad predictions] (criterion (data predictions) labels)
      in case binary_accuracy (data predictions) labels of
           Inl e \<Rightarrow> Inl e
         | Inr acc \<Rightarrow> Inr (data loss, acc))"

fun evaluate_loop ::
  "('v, 'os) torch \<Rightarrow> (pyfloat list \<Rightarrow> pyfloat list \<Rightarrow> pyfloat) \<Rightarrow> 'v BERTGRUSentiment \<Rightarrow>
   batch list \<Rightarrow> pyfloat \<Rightarrow> pyfloat \<Rightarrow> error + pyfloat \<times> pyfloat" where
  "evaluate_loop L criterion model [] epoch_loss epoch_acc = Inr (epoch_loss, epoch_acc)"
| "evaluate_loop L criterion model (b # rest) epoch_loss epoch_acc =
     (case evaluate_batch L criterion model b of
        Inl e \<Rightarrow> Inl e
      | Inr (loss, acc) \<Rightarrow>
          evaluate_loop L criterion model rest (fadd epoch_loss loss) (fadd epoch_acc acc))"

definition evaluate ::
  "('v, 'os) torch \<Rightarrow> 'v BERTGRUSentiment \<Rightarrow> batch list \<Rightarrow>
   (pyfloat list \<Rightarrow> pyfloat list \<Rightarrow> pyfloat) \<Rightarrow> (error + pyfloat \<times> pyfloat) \<times> 'v BERTGRUSentiment" where
  "evaluate L model iterator criterion =
     (let model = model\<lparr>training := False\<rparr>
      in case evaluate_loop L criterion model iterator (Fin 0) (Fin 0) of
           Inl e \<Rightarrow> (Inl e, model)
         | Inr (epoch_loss, epoch_acc) \<Rightarrow>
             (epoch_means epoch_loss epoch_acc (length iterator), model))"

section \<open>Inference (lines 421-429)\<close>

text \<open>Lines 423-425: the id sequence built from the sentence.\<close>

definition predict_indexed :: "tokenizer \<Rightarrow> string \<Rightarrow> int list" where
  "predict_indexed tk sentence =
     (let tokens = tokenize tk sentence;
          tokens = py_slice_to tokens (max_input_length - 2);
          indexed = [init_token_idx tk] @ convert_tokens_to_ids tk tokens @ [eos_token_idx tk]
      in indexed)"

text \<open>
  Lines 422-428: the tensor \<open>prediction\<close>, with the model as \<open>model.eval()\<close> leaves it.
  \<open>unsqueeze(0)\<close> makes the sequence the one row of a batch. The function is called at
  the notebook's top level and opens no \<open>no_grad\<close> block of its own, so the forward pass
  and the sigmoid run with grad mode enabled.
\<close>

definition predict_prediction ::
  "('v, 'os) torch \<Rightarrow> 'v BERTGRUSentiment \<Rightarrow> tokenizer \<Rightarrow> string \<Rightarrow> (pyfloat list) tensor" where
  "predict_prediction L model tk sentence =
     (let model = model\<lparr>training := False\<rparr>;
          indexed = predict_indexed tk sentence;
          tensor = [indexed];
          logits = forward L model True tensor
      in torch_op True [requires_grad logits] (map fsigmoid (data logits)))"

text \<open>\<open>t.item()\<close>: the element of a tensor of exactly one element.\<close>

definition item :: "(pyfloat list) tensor \<Rightarrow> error + pyfloat" where
  "item t = (case data t of [x] \<Rightarrow> Inr x | _ \<Rightarrow> Inl RuntimeError)"

definition predict_sentiment ::
  "('v, 'os) torch \<Rightarrow> 'v BERTGRUSentiment \<Rightarrow> tokenizer \<Rightarrow> string \<Rightarrow>
   (error + pyfloat) \<times> 'v BERTGRUSentiment" where
  "predict_sentiment L model tk sentence =
     (item (predict_prediction L model tk sentence), model\<lparr>training := False\<rparr>)"

section \<open>The epoch loop and the checkpoint (lines 379-401)\<close>

text \<open>
  The notebook's global state in the epoch loop. The four metrics are unbound before the
  first epoch (\<open>None\<close>). The file \<open>model.pt\<close> is kept as the list of the contents
  written to it, oldest first: \<open>torch.save\<close> replaces the file, so its content is the
  last element, and the list's length counts the writes.
\<close>

record ('v, 'os) notebook =
  model :: "'v BERTGRUSentiment"
  optimizer :: "'os optimizer"
  best_valid_loss :: pyfloat
  train_loss :: "pyfloat option"
  train_acc :: "pyfloat option"
  valid_loss :: "pyfloat option"
  valid_acc :: "pyfloat option"
  model_pt :: "(string \<times> 'v) list list"

text \<open>Lines 264 and 381: the state the loop starts from, with no checkpoint written yet.\<close>

definition notebook_init :: "'v BERTGRUSentiment \<Rightarrow> ('v, 'os) notebook" where
  "notebook_init m =
     \<lparr>model = m, optimizer = Adam, best_valid_loss = PInf, train_loss = None, train_acc = None,
      valid_loss = None, valid_acc = None, model_pt = []\<rparr>"

text \<open>One pass of the loop body; an exception of \<open>train\<close> or \<open>evaluate\<close> ends the run.\<close>

definition epoch_body ::
  "('v, 'os) torch \<Rightarrow> (pyfloat list \<Rightarrow> pyfloat list \<Rightarrow> pyfloat) \<Rightarrow> batch list \<Rightarrow> batch list \<Rightarrow>
   ('v, 'os) notebook \<Rightarrow> error + ('v, 'os) notebook" where
  "epoch_body L criterion train_iterator valid_iterator nb =
     (case train L (model nb) train_iterator (optimizer nb) criterion of
        (Inl e, m, opt) \<Rightarrow> Inl e
      | (Inr (t_loss, t_acc), m, opt) \<Rightarrow>
          (case evaluate L m valid_iterator criterion of
             (Inl e, m) \<Rightarrow> Inl e
           | (Inr (v_loss, v_acc), m) \<Rightarrow>
               (let nb = nb\<lparr>model := m, optimizer := opt, train_loss := Some t_loss,
                           train_acc := Some t_acc, valid_loss := Some v_loss,
                           valid_acc := Some v_acc\<rparr>
                in if flt v_loss (best_valid_loss nb)
                   then Inr (nb\<lparr>best_valid_loss := v_loss, model_pt := model_pt nb @ [state_dict m]\<rparr>)
                   else Inr nb)))"

text \<open>
  \<open>for epoch in range(n)\<close>: the states of the notebook at the end of each completed
  pass, in order.
\<close>

fun run_epochs ::
  "('v, 'os) torch \<Rightarrow> (pyfloat list \<Rightarrow> pyfloat list \<Rightarrow> pyfloat) \<Rightarrow> batch list \<Rightarrow> batch list \<Rightarrow>
   nat \<Rightarrow> ('v, 'os) notebook \<Rightarrow> ('v, 'os) notebook list" where
  "run_epochs L criterion train_iterator valid_iterator 0 nb = []"
| "run_epochs L criterion train_iterator valid_iterator (Suc n) nb =
     (case epoch_body L criterion train_iterator valid_iterator nb of
        Inl e \<Rightarrow> []
      | Inr nb' \<Rightarrow> nb' # run_epochs L criterion train_iterator valid_iterator n nb')"

definition N_EPOCHS :: nat where
  "N_EPOCHS = 2"

section \<open>The notebook's configuration (lines 206-240)\<close>

definition HIDDEN_DIM :: nat where
  "HIDDEN_DIM = 256"

definition OUTPUT_DIM :: nat where
  "OUTPUT_DIM = 1"

definition N_LAYERS :: nat where
  "N_LAYERS = 2"

definition BIDIRECTIONAL :: bool where
  "BIDIRECTIONAL = True"

definition DROPOUT :: real where
  "DROPOUT = 0.5"

text \<open>The model as lines 212-217 construct it, before the freezing loops.\<close>

definition constructed_model :: "('v, 'os) torch \<Rightarrow> 'v BertModel \<Rightarrow> 'v BERTGRUSentiment" where
  "constructed_model L bert_model =
     BERTGRUSentiment_init L bert_model HIDDEN_DIM OUTPUT_DIM N_LAYERS BIDIRECTIONAL DROPOUT"

text \<open>The model after lines 234-240.\<close>

definition frozen_model :: "('v, 'os) torch \<Rightarrow> 'v BertModel \<Rightarrow> 'v BERTGRUSentiment" where
  "frozen_model L bert_model = freeze (constructed_model L bert_model)"

section \<open>Properties used in the statements\<close>

text \<open>
  The encoder is frozen and the head is trainable: a parameter requires grad exactly when
  its name does not start with \<open>bert\<close>.
\<close>

definition encoder_frozen :: "'v BERTGRUSentiment \<Rightarrow> bool" where
  "encoder_frozen m =
     list_all (\<lambda>(name, p). requires_grad p = (\<not> startswith name ''bert'')) (named_parameters m)"

text \<open>Some parameter of the recurrent network or of the linear layer requires grad.\<close>

definition head_trainable :: "'v BERTGRUSentiment \<Rightarrow> bool" where
  "head_trainable m = (True \<in> set (grad_flags (rnn m) @ grad_flags (out m)))"

text \<open>The sum of a list of floats, and their arithmetic mean (the sum over the number).\<close>

fun fsum :: "pyfloat list \<Rightarrow> pyfloat" where
  "fsum [] = Fin 0"
| "fsum (x # xs) = fadd x (fsum xs)"

definition arith_mean :: "pyfloat list \<Rightarrow> error + pyfloat" where
  "arith_mean xs = fdiv_len (fsum xs) (length xs)"

text \<open>
  The per-batch values \<open>(loss.item(), acc.item())\<close> of a training pass, in order: each
  batch is run on the model and optimizer the batches before it left.
\<close>

fun train_metrics ::
  "('v, 'os) torch \<Rightarrow> (pyfloat list \<Rightarrow> pyfloat list \<Rightarrow> pyfloat) \<Rightarrow> 'v BERTGRUSentiment \<Rightarrow>
   'os optimizer \<Rightarrow> batch list \<Rightarrow> (pyfloat \<times> pyfloat) list" where
  "train_metrics L criterion m opt [] = []"
| "train_metrics L criterion m opt (b # rest) =
     (case train_batch L criterion m opt b of
        (Inl e, m', opt') \<Rightarrow> []
      | (Inr la, m', opt') \<Rightarrow> la # train_metrics L criterion m' opt' rest)"

text \<open>The per-batch values of an evaluation pass: every batch is run on the same model.\<close>

fun evaluate_metrics ::
  "('v, 'os) torch \<Rightarrow> (pyfloat list \<Rightarrow> pyfloat list \<Rightarrow> pyfloat) \<Rightarrow> 'v BERTGRUSentiment \<Rightarrow>
   batch list \<Rightarrow> (pyfloat \<times> pyfloat) list" where
  "evaluate_metrics L criterion m [] = []"
| "evaluate_metrics L criterion m (b # rest) =
     (case evaluate_batch L criterion m b of
        Inl e \<Rightarrow> []
      | Inr la \<Rightarrow> la # evaluate_metrics L criterion m rest)"

text \<open>
  The validation losses of the epochs that wrote the checkpoint, read off the sequence of
  notebook states: an epoch wrote when the file's write count grew over it.
\<close>

fun checkpoint_losses :: "('v, 'os) notebook list \<Rightarrow> pyfloat list" where
  "checkpoint_losses (s # s' # rest) =
     (if length (model_pt s) < length (model_pt s')
      then (case valid_loss s' of Some v \<Rightarrow> [v] | None \<Rightarrow> [])
      else []) @ checkpoint_losses (s' # rest)"
| "checkpoint_losses _ = []"

text \<open>The \<open>requires_grad\<close> flag of every parameter, by name.\<close>

definition requires_grad_flags :: "'v BERTGRUSentiment \<Rightarrow> (string \<times> bool) list" where
  "requires_grad_flags m = map (\<lambda>(n, p). (n, requires_grad p)) (named_parameters m)"

text \<open>
  What one completed epoch does to the checkpoint, between the notebook state \<open>s\<close> it
  starts from and the state \<open>s'\<close> it ends in: with \<open>v\<close> the epoch's validation loss,
  the file gets one new content (the parameters of the model at the end of the epoch) if
  \<open>v\<close> is below the running best of \<open>s\<close>, and none otherwise; the running best becomes
  \<open>v\<close> in the first case and stays in the second.
\<close>

definition checkpoint_step :: "('v, 'os) notebook \<Rightarrow> ('v, 'os) notebook \<Rightarrow> bool" where
  "checkpoint_step s s' =
     (case valid_loss s' of
        None \<Rightarrow> False
      | Some v \<Rightarrow>
          model_pt s' = (if flt v (best_valid_loss s) then model_pt s @ [state_dict (model s')]
                         else model_pt s)
          \<and> best_valid_loss s' = (if flt v (best_valid_loss s) then v else best_valid_loss s)
          \<and> (length (model_pt s) < length (model_pt s')) = flt v (best_valid_loss s)
          \<and> length (model_pt s') \<le> length (model_pt s) + 1)"

text \<open>
  Two models agree on what training must leave alone: the \<open>requires_grad\<close> flag of
  every parameter and the contents of the encoder's parameters.
\<close>

definition same_frame :: "'v BERTGRUSentiment \<Rightarrow> 'v BERTGRUSentiment \<Rightarrow> bool" where
  "same_frame m m' =
     (grad_flags (bert m') = grad_flags (bert m) \<and> grad_flags (rnn m') = grad_flags (rnn m)
      \<and> grad_flags (out m') = grad_flags (out m) \<and> weights (bert m') = weights (bert m))"

section \<open>Example instances\<close>

text \<open>A tokenizer that makes every character a token.\<close>

definition demo_tokenizer :: tokenizer where
  "demo_tokenizer =
     \<lparr>tokenize = map (\<lambda>c. [c]),
      vocab_id = (\<lambda>t. if t = ''[CLS]'' then 101 else if t = ''[SEP]'' then 102
                       else if t = ''[PAD]'' then 0 else if length t = 1 then 1000 else 100),
      cls_token = ''[CLS]'', sep_token = ''[SEP]'', pad_token = ''[PAD]'',
      unk_token = ''[UNK]''\<rparr>"

text \<open>
  A small numeric library over integers: the logit is the sum of the linear layer's
  weights, a gradient is always 1, and an optimizer step subtracts the gradient.
\<close>

definition demo_torch :: "(int, nat) torch" where
  "demo_torch =
     \<lparr>GRU_init = (\<lambda>cfg. [(''weight_ih_l0'', 1), (''weight_hh_l0'', 1)]),
      Linear_init = (\<lambda>i j. [(''weight'', 1), (''bias'', 0)]),
      bert_call = (\<lambda>w tr ids. int (length ids)),
      GRU_call = (\<lambda>cfg w tr e. e),
      select_layer = (\<lambda>i h. h),
      cat = (\<lambda>a b. a + b),
      Dropout_call = (\<lambda>p tr h. if tr then 0 else h),
      Linear_call = (\<lambda>w h. Fin (of_int (sum_list (map snd w)))),
      autograd = (\<lambda>sd tr b name. 1),
      tensor_add = (\<lambda>a b. a + b),
      adam_update = (\<lambda>st v g. (v - g, case st of None \<Rightarrow> 1 | Some k \<Rightarrow> Suc k))\<rparr>"

text \<open>An encoder of one parameter, as the library loads it: the parameter requires grad.\<close>

definition demo_bert :: "int BertModel" where
  "demo_bert =
     \<lparr>bert_parameters = [(''embeddings.word_embeddings.weight'', Parameter 7)],
      config_hidden_size = 768\<rparr>"

definition demo_criterion :: "pyfloat list \<Rightarrow> pyfloat list \<Rightarrow> pyfloat" where
  "demo_criterion preds labels = (case preds of [] \<Rightarrow> Fin 0 | p # ps \<Rightarrow> p)"

definition demo_iterator :: "batch list" where
  "demo_iterator = [[([101, 1000, 102], Fin 1)]]"

text \<open>
  The example model after \<open>k\<close> optimizer steps under the example library: every step
  lowers each head weight by one. \<open>g\<close> is the \<open>grad\<close> attribute of the head's
  parameters and \<open>tr\<close> the mode flag.
\<close>

definition demo_trained :: "int \<Rightarrow> int option \<Rightarrow> bool \<Rightarrow> int BERTGRUSentiment" where
  "demo_trained k g tr =
     \<lparr>bert = [(''embeddings.word_embeddings.weight'',
               \<lparr>data = 7, requires_grad = False, grad = None\<rparr>)],
      rnn = [(''weight_ih_l0'', \<lparr>data = 1 - k, requires_grad = True, grad = g\<rparr>),
             (''weight_hh_l0'', \<lparr>data = 1 - k, requires_grad = True, grad = g\<rparr>)],
      rnn_config = \<lparr>input_size = 768, hidden_size = 256, num_layers = 2, bidirectional = True,
                    gru_dropout = 0.5\<rparr>,
      out = [(''weight'', \<lparr>data = 1 - k, requires_grad = True, grad = g\<rparr>),
             (''bias'', \<lparr>data = - k, requires_grad = True, grad = g\<rparr>)],
      dropout = 0.5, training = tr\<rparr>"

text \<open>
  The example library with a linear layer whose logit is its input, so that the logit
  tells the length of the sequence the encoder was given.
\<close>

definition demo_torch_len :: "(int, nat) torch" where
  "demo_torch_len = demo_torch\<lparr>Linear_call := (\<lambda>w h. Fin (of_int h))\<rparr>"

text \<open>The example library with a linear layer that has diverged: its logit is NaN.\<close>

definition nan_torch :: "(int, nat) torch" where
  "nan_torch = demo_torch\<lparr>Linear_call := (\<lambda>w h. NaN)\<rparr>"

text \<open>An iterator of two batches of different sizes, one example and three.\<close>

definition demo_batches :: "batch list" where
  "demo_batches =
     [[([101, 1000, 102], Fin 1)],
      [([101, 1000, 102], Fin 1), ([101, 1001, 102], Fin 1), ([101, 1002, 102], Fin 0)]]"

section \<open>Inference builds a sequence of bounded length\<close>

lemma length_py_slice_to:
  "0 \<le> k \<Longrightarrow> length (py_slice_to xs k) = min (nat k) (length xs)"
  by (simp add: py_slice_to_def)

lemma predict_indexed_eq:
  "predict_indexed tk sentence =
     init_token_idx tk
       # convert_tokens_to_ids tk (py_slice_to (tokenize tk sentence) (max_input_length - 2))
       @ [eos_token_idx tk]"
  by (simp add: predict_indexed_def Let_def)

lemma predict_sentiment_runs_model:
  "predict_sentiment L m tk sentence =
     (let logits = forward L (m\<lparr>training := False\<rparr>) True [predict_indexed tk sentence]
      in (item (torch_op True [requires_grad logits] (map fsigmoid (data logits))),
          m\<lparr>training := False\<rparr>))"
  by (simp add: predict_sentiment_def predict_prediction_def Let_def)

text \<open>
  C1. When the sentence has more than \<open>max_input_length - 2\<close> tokens,
  \<open>predict_sentiment\<close> runs the model on the one-row batch whose row is the
  begin-marker id, the ids of the first \<open>max_input_length - 2\<close> tokens and the
  end-marker id, \<open>max_input_length\<close> ids in all, and returns the sigmoid of the
  result. For every sentence the row it runs the model on has at most
  \<open>max_input_length\<close> ids.
\<close>

theorem predict_sentiment_truncates:
  "(max_input_length - 2 < int (length (tokenize tk sentence)) \<longrightarrow>
      (let indexed = init_token_idx tk
             # convert_tokens_to_ids tk (take (nat (max_input_length - 2)) (tokenize tk sentence))
             @ [eos_token_idx tk];
           logits = forward L (m\<lparr>training := False\<rparr>) True [indexed]
       in predict_sentiment L m tk sentence =
            (item (torch_op True [requires_grad logits] (map fsigmoid (data logits))),
             m\<lparr>training := False\<rparr>)
          \<and> predict_indexed tk sentence = indexed
          \<and> int (length indexed) = max_input_length)
      \<and> int (length (convert_tokens_to_ids tk
                (take (nat (max_input_length - 2)) (tokenize tk sentence)))) = max_input_length - 2)
   \<and> (let indexed = predict_indexed tk sentence;
           logits = forward L (m\<lparr>training := False\<rparr>) True [indexed]
       in predict_sentiment L m tk sentence =
            (item (torch_op True [requires_grad logits] (map fsigmoid (data logits))),
             m\<lparr>training := False\<rparr>)
          \<and> int (length indexed) \<le> max_input_length)"
proof -
  have bound: "int (length (predict_indexed tk sentence)) \<le> max_input_length"
    by (simp add: predict_indexed_eq py_slice_to_def max_input_length_def
        convert_tokens_to_ids_def)
  have long: "predict_indexed tk sentence =
      init_token_idx tk
        # convert_tokens_to_ids tk (take (nat (max_input_length - 2)) (tokenize tk sentence))
        @ [eos_token_idx tk]"
    by (simp add: predict_indexed_eq py_slice_to_def max_input_length_def)
  have len: "int (length (predict_indexed tk sentence)) = max_input_length"
    and cnt: "int (length (convert_tokens_to_ids tk
                (take (nat (max_input_length - 2)) (tokenize tk sentence)))) = max_input_length - 2"
    if "max_input_length - 2 < int (length (tokenize tk sentence))"
    using that
    by (simp_all add: predict_indexed_eq py_slice_to_def max_input_length_def
        convert_tokens_to_ids_def)
  show ?thesis
    using bound len cnt predict_sentiment_runs_model [of L m tk sentence]
    by (simp add: Let_def long [symmetric])
qed

section \<open>Frame properties of evaluation and inference\<close>

lemma named_parameters_training [simp]:
  "named_parameters (m\<lparr>training := b\<rparr>) = named_parameters m"
  by (simp add: named_parameters_def)

lemma length_forward [simp]: "length (data (forward L m g txt)) = length txt"
  by (simp add: forward_def torch_op_def Let_def)

lemma tensor_eq_same_length:
  "length xs = length ys \<Longrightarrow> tensor_eq xs ys = Inr (map2 feq xs ys)"
  by (simp add: tensor_eq_def)

lemma binary_accuracy_same_length:
  "length preds = length y \<Longrightarrow>
   binary_accuracy preds y =
     Inr (tensor_mean (to_float (map2 feq (map fround (map fsigmoid preds)) y)))"
  by (simp add: binary_accuracy_def tensor_eq_same_length Let_def)

lemma evaluate_batch_Inr:
  "evaluate_batch L criterion m b =
     Inr (criterion (data (forward L m False (batch_text b))) (batch_label b),
          tensor_mean (to_float (map2 feq
             (map fround (map fsigmoid (data (forward L m False (batch_text b))))) (batch_label b))))"
  by (simp add: evaluate_batch_def Let_def binary_accuracy_same_length batch_text_def
      batch_label_def torch_op_def)

lemma evaluate_loop_Inr:
  "\<exists>r. evaluate_loop L criterion m it l a = Inr r"
  by (induction it arbitrary: l a) (simp_all add: evaluate_batch_Inr)

lemma epoch_means_zero_iff:
  "(epoch_means l a n = Inl e) = (n = 0 \<and> e = ZeroDivisionError)"
  by (auto simp: epoch_means_def fdiv_len_def)

lemma evaluate_error_iff:
  "(fst (evaluate L m it criterion) = Inl e) = (it = [] \<and> e = ZeroDivisionError)"
proof -
  obtain l a where "evaluate_loop L criterion (m\<lparr>training := False\<rparr>) it (Fin 0) (Fin 0) = Inr (l, a)"
    using evaluate_loop_Inr by (metis surj_pair)
  then show ?thesis
    by (simp add: evaluate_def Let_def epoch_means_zero_iff)
qed

lemma train_batch_error:
  "train_batch L criterion m opt b = (Inl e, m', opt') \<Longrightarrow> e = RuntimeError"
  by (auto simp: train_batch_def Let_def binary_accuracy_same_length batch_text_def
      batch_label_def split: if_splits prod.splits)

lemma train_loop_error:
  "train_loop L criterion m opt it l a = (Inl e, m', opt') \<Longrightarrow> e = RuntimeError"
proof (induction it arbitrary: m opt l a)
  case Nil
  then show ?case by simp
next
  case (Cons b it)
  then show ?case
    by (auto split: prod.splits sum.splits dest: train_batch_error)
qed

text \<open>
  C9. On an iterator of no batch, \<open>train\<close> and \<open>evaluate\<close> both end in the division
  of the accumulated totals by \<open>len(iterator) = 0\<close> and raise
  \<open>ZeroDivisionError\<close> instead of returning a mean; the division raises for the empty
  iterator and for no other.
\<close>

theorem empty_iterator_division_by_zero:
  "fst (train L m [] opt criterion) = Inl ZeroDivisionError
   \<and> fst (evaluate L m [] criterion) = Inl ZeroDivisionError
   \<and> (fst (train L m it opt criterion) = Inl ZeroDivisionError) = (it = [])
   \<and> (fst (evaluate L m it criterion) = Inl ZeroDivisionError) = (it = [])"
proof -
  have t0: "fst (train L m [] opt criterion) = Inl ZeroDivisionError"
    by (simp add: train_def epoch_means_def fdiv_len_def)
  have t1: "fst (train L m it opt criterion) \<noteq> Inl ZeroDivisionError" if "it \<noteq> []"
  proof (cases "train_loop L criterion (m\<lparr>training := True\<rparr>) opt it (Fin 0) (Fin 0)")
    case (fields r m' opt')
    show ?thesis
    proof (cases r)
      case (Inl e)
      with fields have "e = RuntimeError" using train_loop_error by fastforce
      with fields Inl show ?thesis by (simp add: train_def)
    next
      case (Inr la)
      with fields that show ?thesis
        by (cases la) (simp add: train_def epoch_means_zero_iff)
    qed
  qed
  show ?thesis using t0 t1 by (auto simp: evaluate_error_iff)
qed

text \<open>
  C10. Whatever the mode flag was, the model \<open>predict_sentiment\<close> leaves behind has
  \<open>training = False\<close>; it is the model it was given with that flag changed and
  nothing else, so the parameters and their values are the same.
\<close>

theorem predict_sentiment_sets_eval_mode:
  "training (snd (predict_sentiment L m tk sentence)) = False
   \<and> snd (predict_sentiment L m tk sentence) = m\<lparr>training := False\<rparr>
   \<and> named_parameters (snd (predict_sentiment L m tk sentence)) = named_parameters m
   \<and> state_dict (snd (predict_sentiment L m tk sentence)) = state_dict m"
  by (simp add: predict_sentiment_def state_dict_def)

text \<open>
  C5. For every iterator and every model, \<open>evaluate\<close> leaves every parameter as it
  was (contents, \<open>requires_grad\<close> and \<open>grad\<close>): the model after the call is the
  model before it in evaluation mode, whether the call returns or raises. Its forward
  passes run with grad mode off, so their result does not require grad and nothing is
  recorded for a backward pass.
\<close>

theorem evaluate_leaves_parameters:
  "snd (evaluate L m it criterion) = m\<lparr>training := False\<rparr>
   \<and> named_parameters (snd (evaluate L m it criterion)) = named_parameters m
   \<and> state_dict (snd (evaluate L m it criterion)) = state_dict m
   \<and> requires_grad (forward L (m\<lparr>training := False\<rparr>) False txt) = False"
proof -
  have "snd (evaluate L m it criterion) = m\<lparr>training := False\<rparr>"
    by (simp add: evaluate_def Let_def split: sum.splits prod.splits)
  then show ?thesis
    by (simp add: state_dict_def forward_def torch_op_def Let_def)
qed

section \<open>Binary accuracy\<close>

lemma sum_list_to_float: "sum_list (to_float bs) = real (length (filter id bs))"
  by (induction bs) (simp_all add: to_float_def)

lemma filter_map2:
  "length (filter id (map2 f xs ys)) = length (filter (\<lambda>(x, y). f x y) (zip xs ys))"
  by (induction xs ys rule: list_induct2') simp_all

lemma sigmoid_zero: "fsigmoid (Fin 0) = Fin (1 / 2)"
  by (simp add: fsigmoid_def)

lemma round_half: "round_half_even (1 / 2) = 0"
  by (simp add: round_half_even_def Let_def)

lemma round_boundary: "fround (fsigmoid (Fin 0)) = Fin 0"
  by (simp add: sigmoid_zero fround_def round_half)

lemma round_special: "fround (fsigmoid PInf) = Fin 1" "fround (fsigmoid NInf) = Fin 0"
  by (simp_all add: fsigmoid_def fround_def round_half_even_def Let_def)

lemma tensor_mean_to_float:
  "tensor_mean (to_float bs) =
     (if bs = [] then NaN else Fin (real (length (filter id bs)) / real (length bs)))"
proof -
  have "(to_float bs = []) = (bs = [])" and "length (to_float bs) = length bs"
    by (simp_all add: to_float_def)
  then show ?thesis
    by (simp add: tensor_mean_def sum_list_to_float)
qed

text \<open>
  C7. For predictions and labels of equal shape, \<open>binary_accuracy\<close> is the number of
  examples whose rounded sigmoid equals the label, divided by the number of examples (NaN
  when there is none, as the library's mean of no element). At the decision boundary the
  result is fixed: the sigmoid of logit 0 is one half, which rounds to the even
  neighbour 0, so a boundary prediction counts as correct for label 0 and as wrong for
  label 1.
\<close>

theorem binary_accuracy_is_mean_of_matches:
  "length preds = length y \<Longrightarrow>
   binary_accuracy preds y =
     Inr (if preds = [] then NaN
          else Fin (real (length (filter (\<lambda>(p, l). feq (fround (fsigmoid p)) l) (zip preds y)))
                    / real (length preds)))
   \<and> fround (fsigmoid (Fin 0)) = Fin 0
   \<and> binary_accuracy [Fin 0] [Fin 0] = Inr (Fin 1)
   \<and> binary_accuracy [Fin 0] [Fin 1] = Inr (Fin 0)"
proof -
  assume len: "length preds = length y"
  define bs where "bs = map2 feq (map fround (map fsigmoid preds)) y"
  have zip_eq: "zip (map fround (map fsigmoid preds)) y
      = map (\<lambda>(p, l). (fround (fsigmoid p), l)) (zip preds y)"
    by (simp add: zip_map1 case_prod_unfold)
  have cnt: "length (filter id bs)
      = length (filter (\<lambda>(p, l). feq (fround (fsigmoid p)) l) (zip preds y))"
    unfolding bs_def zip_eq by (simp add: filter_map comp_def case_prod_unfold)
  have lbs: "length bs = length preds"
    using len by (simp add: bs_def)
  then have emp: "(bs = []) = (preds = [])"
    by (metis length_0_conv)
  have "binary_accuracy preds y = Inr (tensor_mean (to_float bs))"
    using len by (simp add: binary_accuracy_same_length bs_def)
  then have main: "binary_accuracy preds y =
     Inr (if preds = [] then NaN
          else Fin (real (length (filter (\<lambda>(p, l). feq (fround (fsigmoid p)) l) (zip preds y)))
                    / real (length preds)))"
    by (simp only: tensor_mean_to_float emp cnt lbs)
  have b0: "binary_accuracy [Fin 0] [Fin 0] = Inr (Fin 1)"
    by (simp add: binary_accuracy_same_length tensor_mean_def to_float_def round_boundary)
  have b1: "binary_accuracy [Fin 0] [Fin 1] = Inr (Fin 0)"
    by (simp add: binary_accuracy_same_length tensor_mean_def to_float_def round_boundary)
  show ?thesis using main b0 b1 round_boundary by simp
qed

theorem binary_accuracy_is_mean_of_matches_witness:
  "length [Fin 0, PInf, NInf] = length [Fin 0, Fin 1, Fin 1]
   \<and> binary_accuracy [Fin 0, PInf, NInf] [Fin 0, Fin 1, Fin 1] = Inr (Fin (2 / 3))"
  using binary_accuracy_is_mean_of_matches [of "[Fin 0, PInf, NInf]" "[Fin 0, Fin 1, Fin 1]"]
  by (simp add: round_boundary round_special)

section \<open>Inference on the empty string, and what inference records\<close>

lemma fsigmoid_range:
  "x \<noteq> NaN \<Longrightarrow> \<exists>p. fsigmoid x = Fin p \<and> 0 \<le> p \<and> p \<le> 1"
proof (cases x)
  case (Fin a)
  have pos: "0 < 1 + exp (- a)" by (simp add: add_pos_pos)
  have "0 \<le> 1 / (1 + exp (- a))" using pos by simp
  moreover have "1 / (1 + exp (- a)) \<le> 1" using pos by (simp add: divide_le_eq_1_pos)
  ultimately have "0 \<le> 1 / (1 + exp (- a)) \<and> 1 / (1 + exp (- a)) \<le> 1" by simp
  with Fin show ?thesis by (simp add: fsigmoid_def)
qed (simp_all add: fsigmoid_def)

lemma predict_indexed_empty:
  "tokenize tk [] = [] \<Longrightarrow> predict_indexed tk [] = [init_token_idx tk, eos_token_idx tk]"
  by (simp add: predict_indexed_def py_slice_to_def max_input_length_def
      convert_tokens_to_ids_def)

lemma data_forward_single:
  "\<exists>x. data (forward L m g [row]) = [x]"
  by (simp add: forward_def torch_op_def Let_def)

lemma fsigmoid_NaN_iff: "(fsigmoid x = NaN) = (x = NaN)"
  by (cases x) (simp_all add: fsigmoid_def)

text \<open>
  C8 (amended). For the empty string, given that the tokenizer finds no token in it,
  \<open>predict_sentiment\<close> does not raise: it runs the model on the one-row batch whose
  row is the begin-marker id followed by the end-marker id and returns the sigmoid of the
  one logit it gets. That value is a finite number between 0 and 1 whenever the logit is
  not NaN; a NaN logit is returned as NaN, since nothing in the code guards against it.
\<close>

theorem predict_sentiment_empty_string:
  assumes "tokenize tk [] = []"
  shows "predict_indexed tk [] = [init_token_idx tk, eos_token_idx tk]
    \<and> length (predict_indexed tk []) = 2
    \<and> (\<exists>x. data (forward L (m\<lparr>training := False\<rparr>) True
                 [[init_token_idx tk, eos_token_idx tk]]) = [x]
           \<and> predict_sentiment L m tk [] = (Inr (fsigmoid x), m\<lparr>training := False\<rparr>)
           \<and> (x \<noteq> NaN \<longrightarrow> (\<exists>p. fsigmoid x = Fin p \<and> 0 \<le> p \<and> p \<le> 1))
           \<and> (x = NaN \<longrightarrow> fsigmoid x = NaN))"
proof -
  have idx: "predict_indexed tk [] = [init_token_idx tk, eos_token_idx tk]"
    using assms by (rule predict_indexed_empty)
  obtain x where x: "data (forward L (m\<lparr>training := False\<rparr>) True
      [[init_token_idx tk, eos_token_idx tk]]) = [x]"
    using data_forward_single by blast
  have run: "predict_sentiment L m tk [] = (Inr (fsigmoid x), m\<lparr>training := False\<rparr>)"
    by (simp add: predict_sentiment_runs_model idx x item_def torch_op_def Let_def)
  have rng: "x \<noteq> NaN \<longrightarrow> (\<exists>p. fsigmoid x = Fin p \<and> 0 \<le> p \<and> p \<le> 1)"
    using fsigmoid_range by blast
  have nan: "x = NaN \<longrightarrow> fsigmoid x = NaN"
    by (simp add: fsigmoid_NaN_iff)
  show ?thesis
    using idx x run rng nan by auto
qed

lemma demo_frozen_model:
  "frozen_model demo_torch demo_bert =
     \<lparr>bert = [(''embeddings.word_embeddings.weight'', \<lparr>data = 7, requires_grad = False, grad = None\<rparr>)],
      rnn = [(''weight_ih_l0'', Parameter 1), (''weight_hh_l0'', Parameter 1)],
      rnn_config = \<lparr>input_size = 768, hidden_size = 256, num_layers = 2, bidirectional = True,
                    gru_dropout = 0.5\<rparr>,
      out = [(''weight'', Parameter 1), (''bias'', Parameter 0)],
      dropout = 0.5, training = True\<rparr>"
  by (simp add: frozen_model_def constructed_model_def BERTGRUSentiment_init_def freeze_def
      freeze_bert_def freeze_by_name_def update_parameters_def update_named_def
      startswith_def demo_torch_def demo_bert_def new_parameters_def Parameter_def
      HIDDEN_DIM_def OUTPUT_DIM_def N_LAYERS_def BIDIRECTIONAL_def DROPOUT_def Let_def)

text \<open>
  C4. \<open>predict_sentiment\<close> runs the model in evaluation mode, but not without gradient
  tracking: as soon as a parameter of the head requires grad, the logits of its forward
  pass and the returned \<open>prediction\<close> require grad, that is, the library has recorded
  the head's operations for a backward pass. The same forward pass with grad mode off
  (as \<open>evaluate\<close> runs it) records nothing.
\<close>

theorem predict_sentiment_tracks_gradients:
  "head_trainable m \<Longrightarrow>
   requires_grad (predict_prediction L m tk sentence) = True
   \<and> requires_grad (forward L (m\<lparr>training := False\<rparr>) True [predict_indexed tk sentence]) = True
   \<and> requires_grad (forward L (m\<lparr>training := False\<rparr>) False [predict_indexed tk sentence]) = False"
  by (auto simp: head_trainable_def predict_prediction_def forward_def torch_op_def Let_def)

theorem predict_sentiment_tracks_gradients_witness:
  "head_trainable (frozen_model demo_torch demo_bert)
   \<and> requires_grad (predict_prediction demo_torch (frozen_model demo_torch demo_bert)
        demo_tokenizer ''Avengers was great!!'') = True"
  using predict_sentiment_tracks_gradients [of "frozen_model demo_torch demo_bert" demo_torch
      demo_tokenizer "''Avengers was great!!''"]
  by (simp add: demo_frozen_model head_trainable_def grad_flags_def Parameter_def)

section \<open>Epoch metrics are means over batches\<close>

lemma fadd_assoc: "fadd (fadd a b) c = fadd a (fadd b c)"
  by (cases a; cases b; cases c) simp_all

lemma fadd_zero_left [simp]: "fadd (Fin 0) x = x"
  by (cases x) simp_all

lemma fadd_zero_right [simp]: "fadd x (Fin 0) = x"
  by (cases x) simp_all

lemma arith_mean_finite:
  "arith_mean (map Fin rs) =
     (if rs = [] then Inl ZeroDivisionError else Inr (Fin (sum_list rs / real (length rs))))"
proof -
  have "fsum (map Fin rs) = Fin (sum_list rs)"
    by (induction rs) simp_all
  then show ?thesis
    by (simp add: arith_mean_def fdiv_len_def)
qed

lemma epoch_means_arith_mean:
  assumes "length xs = n" and "n \<noteq> 0"
  shows "\<exists>l a. epoch_means (fsum (map fst xs)) (fsum (map snd xs)) n = Inr (l, a)
           \<and> arith_mean (map fst xs) = Inr l \<and> arith_mean (map snd xs) = Inr a"
  using assms by (simp add: epoch_means_def arith_mean_def fdiv_len_def)

lemma evaluate_loop_fsum:
  "evaluate_loop L criterion m it l a =
     Inr (fadd l (fsum (map fst (evaluate_metrics L criterion m it))),
          fadd a (fsum (map snd (evaluate_metrics L criterion m it))))
   \<and> length (evaluate_metrics L criterion m it) = length it"
proof (induction it arbitrary: l a)
  case Nil
  show ?case by simp
next
  case (Cons b it)
  show ?case
    by (simp add: evaluate_batch_Inr Cons.IH fadd_assoc)
qed

lemma grad_flags_update_named:
  "(\<And>n p. requires_grad (f n p) = requires_grad p) \<Longrightarrow>
   grad_flags (update_named pre f nps) = grad_flags nps"
  by (simp add: grad_flags_def update_named_def case_prod_unfold comp_def)

lemma requires_grad_accumulate [simp]:
  "requires_grad (accumulate_grad L g p) = requires_grad p"
  by (simp add: accumulate_grad_def)

lemma requires_grad_step_parameter [simp]:
  "requires_grad (step_parameter L opt n p) = requires_grad p"
  by (simp add: step_parameter_def split: option.splits)

lemma head_trainable_zero_grad [simp]: "head_trainable (zero_grad m) = head_trainable m"
  by (simp add: head_trainable_def zero_grad_def update_parameters_def grad_flags_update_named)

lemma head_trainable_backward [simp]: "head_trainable (backward L m b) = head_trainable m"
  by (simp add: head_trainable_def backward_def grad_flags_update_named)

lemma head_trainable_step [simp]:
  "head_trainable (snd (optimizer_step L opt m)) = head_trainable m"
  by (simp add: head_trainable_def optimizer_step_def update_parameters_def
      grad_flags_update_named)

lemma requires_grad_forward:
  "requires_grad (forward L m g txt) = (g \<and> head_trainable m)"
  by (auto simp: forward_def torch_op_def Let_def head_trainable_def)

lemma train_batch_Inr:
  assumes "head_trainable m"
  shows "\<exists>la m' opt'. train_batch L criterion m opt b = (Inr la, m', opt') \<and> head_trainable m'"
proof -
  have rg: "requires_grad (forward L (zero_grad m) True (batch_text b))"
    using assms by (simp add: requires_grad_forward)
  have len: "length (data (forward L (zero_grad m) True (batch_text b))) = length (batch_label b)"
    by (simp add: batch_text_def batch_label_def)
  obtain opt' m' where st: "optimizer_step L opt (backward L (zero_grad m) b) = (opt', m')"
    by (cases "optimizer_step L opt (backward L (zero_grad m) b)")
  then have "m' = snd (optimizer_step L opt (backward L (zero_grad m) b))" by simp
  then have "head_trainable m'" using assms by simp
  then show ?thesis
    using rg st by (simp add: train_batch_def Let_def binary_accuracy_same_length [OF len]
        torch_op_def)
qed

lemma train_loop_fsum:
  "head_trainable m \<Longrightarrow>
   \<exists>m' opt'. train_loop L criterion m opt it l a =
       (Inr (fadd l (fsum (map fst (train_metrics L criterion m opt it))),
             fadd a (fsum (map snd (train_metrics L criterion m opt it)))), m', opt')
     \<and> length (train_metrics L criterion m opt it) = length it"
proof (induction it arbitrary: m opt l a)
  case Nil
  show ?case by simp
next
  case (Cons b it)
  from train_batch_Inr [OF Cons.prems]
  obtain lo ac m1 opt1 where
    tb: "train_batch L criterion m opt b = (Inr (lo, ac), m1, opt1)" and ht: "head_trainable m1"
    by (metis surj_pair)
  from Cons.IH [OF ht, of opt1 "fadd l lo" "fadd a ac"]
  show ?case
    by (auto simp: tb fadd_assoc)
qed

text \<open>
  C6. For every non-empty iterator, \<open>evaluate\<close> returns the arithmetic mean of the
  per-batch losses and the arithmetic mean of the per-batch accuracies: the sum of the
  per-batch values over the number of batches, each batch counting once whatever its size.
  So does \<open>train\<close>, on a model whose head has a parameter that requires grad (without
  one, \<open>loss.backward()\<close> raises and nothing is returned). For finite values the mean
  is the real sum divided by the count.
\<close>

theorem epoch_metrics_are_batch_means:
  assumes "iterator \<noteq> []"
  shows "(head_trainable m \<longrightarrow>
           (\<exists>l a. fst (train L m iterator opt criterion) = Inr (l, a)
              \<and> arith_mean (map fst (train_metrics L criterion (m\<lparr>training := True\<rparr>) opt iterator))
                  = Inr l
              \<and> arith_mean (map snd (train_metrics L criterion (m\<lparr>training := True\<rparr>) opt iterator))
                  = Inr a)
           \<and> length (train_metrics L criterion (m\<lparr>training := True\<rparr>) opt iterator)
               = length iterator)
       \<and> (\<exists>l a. fst (evaluate L m iterator criterion) = Inr (l, a)
              \<and> arith_mean (map fst (evaluate_metrics L criterion (m\<lparr>training := False\<rparr>) iterator))
                  = Inr l
              \<and> arith_mean (map snd (evaluate_metrics L criterion (m\<lparr>training := False\<rparr>) iterator))
                  = Inr a)
       \<and> length (evaluate_metrics L criterion (m\<lparr>training := False\<rparr>) iterator) = length iterator
       \<and> arith_mean (map Fin rs) =
           (if rs = [] then Inl ZeroDivisionError else Inr (Fin (sum_list rs / real (length rs))))"
proof -
  have n: "length iterator \<noteq> 0" using assms by simp
  let ?em = "evaluate_metrics L criterion (m\<lparr>training := False\<rparr>) iterator"
  have el: "evaluate_loop L criterion (m\<lparr>training := False\<rparr>) iterator (Fin 0) (Fin 0)
      = Inr (fsum (map fst ?em), fsum (map snd ?em))"
    and elen: "length ?em = length iterator"
    using evaluate_loop_fsum [of L criterion "m\<lparr>training := False\<rparr>" iterator "Fin 0" "Fin 0"]
    by simp_all
  have ev: "\<exists>l a. fst (evaluate L m iterator criterion) = Inr (l, a)
      \<and> arith_mean (map fst ?em) = Inr l \<and> arith_mean (map snd ?em) = Inr a"
    using epoch_means_arith_mean [OF elen n]
    by (auto simp: evaluate_def el)
  let ?tm = "train_metrics L criterion (m\<lparr>training := True\<rparr>) opt iterator"
  have tr: "(\<exists>l a. fst (train L m iterator opt criterion) = Inr (l, a)
      \<and> arith_mean (map fst ?tm) = Inr l \<and> arith_mean (map snd ?tm) = Inr a)
      \<and> length ?tm = length iterator" if ht: "head_trainable m"
  proof -
    have "head_trainable (m\<lparr>training := True\<rparr>)"
      using ht by (simp add: head_trainable_def)
    from train_loop_fsum [OF this, of L criterion opt iterator "Fin 0" "Fin 0"]
    obtain m' opt' where
      tl: "train_loop L criterion (m\<lparr>training := True\<rparr>) opt iterator (Fin 0) (Fin 0)
        = (Inr (fsum (map fst ?tm), fsum (map snd ?tm)), m', opt')"
      and tlen: "length ?tm = length iterator"
      by auto
    show ?thesis
      using epoch_means_arith_mean [OF tlen n] tlen
      by (auto simp: train_def tl)
  qed
  show ?thesis
    using tr ev elen arith_mean_finite by blast
qed


lemma sigmoid_round_pos: "0 < x \<Longrightarrow> fround (fsigmoid (Fin x)) = Fin 1"
proof -
  assume x: "0 < x"
  define s where "s = 1 / (1 + exp (- x))"
  have e: "0 < exp (- x)" "exp (- x) < 1" using x by simp_all
  have pos: "0 < 1 + exp (- x)" by (simp add: add_pos_pos)
  have lo: "1 / 2 < s" unfolding s_def using e by (simp add: pos_less_divide_eq [OF pos])
  have hi: "s < 1" unfolding s_def using e by (simp add: pos_divide_less_eq [OF pos])
  have fl: "\<lfloor>s\<rfloor> = 0" using lo hi by (simp add: floor_eq_iff)
  have "round_half_even s = 1"
    using lo by (simp add: round_half_even_def Let_def fl)
  then show ?thesis by (simp add: fsigmoid_def fround_def s_def)
qed

lemma sigmoid_round_neg: "x < 0 \<Longrightarrow> fround (fsigmoid (Fin x)) = Fin 0"
proof -
  assume x: "x < 0"
  define s where "s = 1 / (1 + exp (- x))"
  have e: "1 < exp (- x)" using x by simp
  have pos: "0 < 1 + exp (- x)" by (simp add: add_pos_pos)
  have lo: "0 < s" unfolding s_def using pos by simp
  have hi: "s < 1 / 2" unfolding s_def using e by (simp add: pos_divide_less_eq [OF pos])
  have fl: "\<lfloor>s\<rfloor> = 0" using lo hi by (simp add: floor_eq_iff)
  have "round_half_even s = 0"
    using hi by (simp add: round_half_even_def Let_def fl)
  then show ?thesis by (simp add: fsigmoid_def fround_def s_def)
qed

lemma demo_torch_sel:
  "GRU_init demo_torch = (\<lambda>cfg. [(''weight_ih_l0'', 1), (''weight_hh_l0'', 1)])"
  "Linear_init demo_torch = (\<lambda>i j. [(''weight'', 1), (''bias'', 0)])"
  "bert_call demo_torch = (\<lambda>w tr ids. int (length ids))"
  "GRU_call demo_torch = (\<lambda>cfg w tr e. e)"
  "select_layer demo_torch = (\<lambda>i h. h)"
  "cat demo_torch = (\<lambda>a b. a + b)"
  "Dropout_call demo_torch = (\<lambda>p tr h. if tr then 0 else h)"
  "Linear_call demo_torch = (\<lambda>w h. Fin (of_int (sum_list (map snd w))))"
  "autograd demo_torch = (\<lambda>sd tr b name. 1)"
  "tensor_add demo_torch = (\<lambda>a b. a + b)"
  "adam_update demo_torch = (\<lambda>st v g. (v - g, case st of None \<Rightarrow> 1 | Some k \<Rightarrow> Suc k))"
  by (simp_all add: demo_torch_def)

lemma demo_train_batch:
  "train_batch demo_torch demo_criterion
      (frozen_model demo_torch demo_bert\<lparr>training := True\<rparr>) Adam [([101, 1000, 102], Fin 1)]
   = (Inr (Fin 1, Fin 1),
      \<lparr>bert = [(''embeddings.word_embeddings.weight'', \<lparr>data = 7, requires_grad = False, grad = None\<rparr>)],
       rnn = [(''weight_ih_l0'', \<lparr>data = 0, requires_grad = True, grad = Some 1\<rparr>),
              (''weight_hh_l0'', \<lparr>data = 0, requires_grad = True, grad = Some 1\<rparr>)],
       rnn_config = \<lparr>input_size = 768, hidden_size = 256, num_layers = 2, bidirectional = True,
                     gru_dropout = 0.5\<rparr>,
       out = [(''weight'', \<lparr>data = 0, requires_grad = True, grad = Some 1\<rparr>),
              (''bias'', \<lparr>data = - 1, requires_grad = True, grad = Some 1\<rparr>)],
       dropout = 0.5, training = True\<rparr>,
      \<lparr>opt_state = [''rnn.weight_ih_l0'' \<mapsto> 1, ''rnn.weight_hh_l0'' \<mapsto> 1,
                     ''out.weight'' \<mapsto> 1, ''out.bias'' \<mapsto> 1]\<rparr>)"
  by (simp add: train_batch_def demo_frozen_model Let_def batch_text_def batch_label_def
      zero_grad_def update_parameters_def update_named_def Parameter_def forward_def
      torch_op_def grad_flags_def weights_def demo_torch_sel demo_criterion_def
      binary_accuracy_same_length sigmoid_round_pos tensor_mean_def to_float_def
      backward_def accumulate_grad_def optimizer_step_def step_parameter_def step_state_def
      named_parameters_def add_prefix_def Adam_def state_dict_def)


lemma demo_evaluate_batch:
  "evaluate_batch demo_torch demo_criterion
      (frozen_model demo_torch demo_bert\<lparr>training := False\<rparr>) [([101, 1000, 102], Fin 1)]
   = Inr (Fin 1, Fin 1)"
  by (simp add: evaluate_batch_Inr demo_frozen_model batch_text_def batch_label_def
      Parameter_def forward_def torch_op_def weights_def demo_torch_sel demo_criterion_def
      sigmoid_round_pos tensor_mean_def to_float_def Let_def)

section \<open>The encoder stays frozen\<close>

lemma startswith_prefixes [simp]:
  "startswith (''bert.'' @ n) ''bert''"
  "\<not> startswith (''rnn.'' @ n) ''bert''"
  "\<not> startswith (''out.'' @ n) ''bert''"
  by (simp_all add: startswith_def)

lemma frozen_bert_part:
  "list_all (\<lambda>(name, p). requires_grad p = (\<not> startswith name ''bert''))
     (add_prefix ''bert.'' nps) = list_all Not (grad_flags nps)"
  by (induction nps) (auto simp: add_prefix_def grad_flags_def startswith_def)

lemma frozen_rnn_part:
  "list_all (\<lambda>(name, p). requires_grad p = (\<not> startswith name ''bert''))
     (add_prefix ''rnn.'' nps) = list_all id (grad_flags nps)"
  by (induction nps) (auto simp: add_prefix_def grad_flags_def startswith_def)

lemma frozen_out_part:
  "list_all (\<lambda>(name, p). requires_grad p = (\<not> startswith name ''bert''))
     (add_prefix ''out.'' nps) = list_all id (grad_flags nps)"
  by (induction nps) (auto simp: add_prefix_def grad_flags_def startswith_def)

lemma encoder_frozen_iff:
  "encoder_frozen m =
     (list_all Not (grad_flags (bert m)) \<and> list_all id (grad_flags (rnn m))
      \<and> list_all id (grad_flags (out m)))"
  by (simp add: encoder_frozen_def named_parameters_def frozen_bert_part frozen_rnn_part
      frozen_out_part)

lemma weights_update_named:
  "(\<And>n p. data (f n p) = data p) \<Longrightarrow> weights (update_named pre f nps) = weights nps"
  by (simp add: weights_def update_named_def case_prod_unfold comp_def)

lemma encoder_frozen_frozen_model: "encoder_frozen (frozen_model L b)"
  by (simp add: encoder_frozen_iff frozen_model_def constructed_model_def
      BERTGRUSentiment_init_def freeze_def freeze_bert_def freeze_by_name_def
      update_parameters_def update_named_def new_parameters_def Parameter_def grad_flags_def
      list_all_iff case_prod_unfold Let_def startswith_def)

lemma weights_bert_frozen_model: "weights (bert (frozen_model L b)) = weights (bert_parameters b)"
  by (simp add: frozen_model_def constructed_model_def BERTGRUSentiment_init_def freeze_def
      freeze_bert_def freeze_by_name_def update_parameters_def update_named_def weights_def
      case_prod_unfold comp_def Let_def)

text \<open>What a pass leaves alone: every flag, and the encoder's contents.\<close>

lemma bert_train_step:
  "bert (snd (optimizer_step L opt (backward L (zero_grad m) b)))
     = map (\<lambda>(n, p). (n, p\<lparr>grad := None\<rparr>)) (bert m)"
  by (simp add: optimizer_step_def backward_def zero_grad_def update_parameters_def
      update_named_def step_parameter_def case_prod_unfold comp_def)

lemma grad_flags_clear: "grad_flags (map (\<lambda>(n, p). (n, p\<lparr>grad := None\<rparr>)) nps) = grad_flags nps"
  by (simp add: grad_flags_def case_prod_unfold comp_def)

lemma weights_clear: "weights (map (\<lambda>(n, p). (n, p\<lparr>grad := None\<rparr>)) nps) = weights nps"
  by (simp add: weights_def case_prod_unfold comp_def)

lemma zero_grad_frame:
  "grad_flags (bert (zero_grad m)) = grad_flags (bert m)"
  "grad_flags (rnn (zero_grad m)) = grad_flags (rnn m)"
  "grad_flags (out (zero_grad m)) = grad_flags (out m)"
  "weights (bert (zero_grad m)) = weights (bert m)"
  by (simp_all add: zero_grad_def update_parameters_def grad_flags_update_named
      weights_update_named)

lemma train_step_frame:
  "grad_flags (bert (snd (optimizer_step L opt (backward L (zero_grad m) b)))) = grad_flags (bert m)"
  "grad_flags (rnn (snd (optimizer_step L opt (backward L (zero_grad m) b)))) = grad_flags (rnn m)"
  "grad_flags (out (snd (optimizer_step L opt (backward L (zero_grad m) b)))) = grad_flags (out m)"
  "weights (bert (snd (optimizer_step L opt (backward L (zero_grad m) b)))) = weights (bert m)"
proof -
  show "grad_flags (bert (snd (optimizer_step L opt (backward L (zero_grad m) b))))
      = grad_flags (bert m)"
    by (simp only: bert_train_step grad_flags_clear)
  show "weights (bert (snd (optimizer_step L opt (backward L (zero_grad m) b))))
      = weights (bert m)"
    by (simp only: bert_train_step weights_clear)
  show "grad_flags (rnn (snd (optimizer_step L opt (backward L (zero_grad m) b))))
      = grad_flags (rnn m)"
    by (simp add: optimizer_step_def backward_def update_parameters_def
        grad_flags_update_named zero_grad_frame)
  show "grad_flags (out (snd (optimizer_step L opt (backward L (zero_grad m) b))))
      = grad_flags (out m)"
    by (simp add: optimizer_step_def backward_def update_parameters_def
        grad_flags_update_named zero_grad_frame)
qed

lemma train_batch_frame:
  "same_frame m (fst (snd (train_batch L criterion m opt b)))"
proof -
  have "fst (snd (train_batch L criterion m opt b)) = zero_grad m
      \<or> fst (snd (train_batch L criterion m opt b))
          = snd (optimizer_step L opt (backward L (zero_grad m) b))"
    by (simp add: train_batch_def Let_def split: sum.splits prod.splits)
  then show ?thesis
    by (auto simp: same_frame_def zero_grad_frame train_step_frame)
qed


lemma same_frame_refl [simp]: "same_frame m m"
  by (simp add: same_frame_def)

lemma same_frame_trans: "same_frame a b \<Longrightarrow> same_frame b c \<Longrightarrow> same_frame a c"
  by (simp add: same_frame_def)

lemma same_frame_training [simp]: "same_frame m (m\<lparr>training := t\<rparr>)"
  by (simp add: same_frame_def)

lemma train_loop_frame:
  "same_frame m (fst (snd (train_loop L criterion m opt it l a)))"
proof (induction it arbitrary: m opt l a)
  case Nil
  show ?case by simp
next
  case (Cons b it)
  obtain r m1 opt1 where tb: "train_batch L criterion m opt b = (r, m1, opt1)"
    by (cases "train_batch L criterion m opt b") auto
  have f1: "same_frame m m1"
    using train_batch_frame [of m L criterion opt b] by (simp add: tb)
  show ?case
  proof (cases r)
    case (Inl e)
    then show ?thesis using f1 by (simp add: tb)
  next
    case (Inr la)
    obtain lo ac where la: "la = (lo, ac)" by (cases la)
    have "same_frame m1 (fst (snd (train_loop L criterion m1 opt1 it (fadd l lo) (fadd a ac))))"
      by (rule Cons.IH)
    with f1 show ?thesis
      by (simp add: tb Inr la same_frame_trans)
  qed
qed

lemma train_frame: "same_frame m (fst (snd (train L m it opt criterion)))"
proof -
  let ?r = "train_loop L criterion (m\<lparr>training := True\<rparr>) opt it (Fin 0) (Fin 0)"
  have "fst (snd (train L m it opt criterion)) = fst (snd ?r)"
    by (simp add: train_def split: prod.splits sum.splits)
  moreover have "same_frame (m\<lparr>training := True\<rparr>) (fst (snd ?r))"
    by (rule train_loop_frame)
  ultimately show ?thesis
    using same_frame_trans [OF same_frame_training] by metis
qed

lemma evaluate_frame: "same_frame m (snd (evaluate L m it criterion))"
  by (simp add: evaluate_def Let_def split: sum.splits prod.splits)

lemma epoch_body_frame:
  assumes "epoch_body L criterion ti vi nb = Inr nb'"
  shows "same_frame (model nb) (model nb')"
proof -
  obtain r m1 opt1 where tr: "train L (model nb) ti (optimizer nb) criterion = (r, m1, opt1)"
    by (cases "train L (model nb) ti (optimizer nb) criterion") auto
  obtain r2 m2 where ev: "evaluate L m1 vi criterion = (r2, m2)"
    by (cases "evaluate L m1 vi criterion") auto
  have f1: "same_frame (model nb) m1"
    using train_frame [of "model nb" L ti "optimizer nb" criterion] by (simp add: tr)
  have f2: "same_frame m1 m2"
    using evaluate_frame [of m1 L vi criterion] by (simp add: ev)
  have "model nb' = m2"
    using assms by (auto simp: epoch_body_def tr ev Let_def split: sum.splits if_splits)
  with f1 f2 show ?thesis by (simp add: same_frame_trans)
qed

lemma run_epochs_frame:
  "list_all (\<lambda>s. same_frame (model nb) (model s)) (run_epochs L criterion ti vi n nb)"
proof (induction n arbitrary: nb)
  case 0
  show ?case by simp
next
  case (Suc n)
  show ?case
  proof (cases "epoch_body L criterion ti vi nb")
    case (Inl e)
    then show ?thesis by simp
  next
    case (Inr nb')
    have f: "same_frame (model nb) (model nb')"
      using Inr by (rule epoch_body_frame)
    have "list_all (\<lambda>s. same_frame (model nb') (model s)) (run_epochs L criterion ti vi n nb')"
      by (rule Suc.IH)
    then have "list_all (\<lambda>s. same_frame (model nb) (model s))
        (run_epochs L criterion ti vi n nb')"
      using f by (auto simp: list_all_iff intro: same_frame_trans)
    with f Inr show ?thesis by simp
  qed
qed

lemma same_frame_encoder_frozen:
  "same_frame m m' \<Longrightarrow> encoder_frozen m \<Longrightarrow> encoder_frozen m'"
  by (simp add: same_frame_def encoder_frozen_iff)

text \<open>
  C3 (amended). After the freezing loops of lines 234-240, a parameter of the model
  requires grad exactly when its name does not start with \<open>bert\<close>: every encoder
  parameter has the flag off and every head parameter has it on. This stays so after a
  training pass, whether it returns or raises, and after any number of epochs of the
  epoch loop; the contents of the encoder's parameters are then still the ones the
  pretrained encoder was loaded with, so no optimizer step has changed them.
\<close>

theorem encoder_frozen_after_freezing_and_training:
  "encoder_frozen (frozen_model L b)
   \<and> weights (bert (frozen_model L b)) = weights (bert_parameters b)
   \<and> encoder_frozen (fst (snd (train L (frozen_model L b) it opt criterion)))
   \<and> weights (bert (fst (snd (train L (frozen_model L b) it opt criterion))))
       = weights (bert_parameters b)
   \<and> list_all (\<lambda>s. encoder_frozen (model s)
                   \<and> weights (bert (model s)) = weights (bert_parameters b))
       (run_epochs L criterion ti vi n (nb\<lparr>model := frozen_model L b\<rparr>))"
proof -
  have fr: "encoder_frozen (frozen_model L b)"
    by (rule encoder_frozen_frozen_model)
  have w: "weights (bert (frozen_model L b)) = weights (bert_parameters b)"
    by (rule weights_bert_frozen_model)
  have keep: "encoder_frozen m' \<and> weights (bert m') = weights (bert_parameters b)"
    if "same_frame (frozen_model L b) m'" for m'
    using that fr w same_frame_encoder_frozen [OF that] by (simp add: same_frame_def)
  have t: "encoder_frozen (fst (snd (train L (frozen_model L b) it opt criterion)))
      \<and> weights (bert (fst (snd (train L (frozen_model L b) it opt criterion))))
          = weights (bert_parameters b)"
    by (rule keep) (rule train_frame)
  have r: "list_all (\<lambda>s. encoder_frozen (model s)
                   \<and> weights (bert (model s)) = weights (bert_parameters b))
       (run_epochs L criterion ti vi n (nb\<lparr>model := frozen_model L b\<rparr>))"
    using run_epochs_frame [of "nb\<lparr>model := frozen_model L b\<rparr>" L criterion ti vi n] keep
    by (auto simp: list_all_iff)
  show ?thesis using fr w t r by simp
qed

lemma demo_constructed_model:
  "constructed_model demo_torch demo_bert =
     \<lparr>bert = [(''embeddings.word_embeddings.weight'', Parameter 7)],
      rnn = [(''weight_ih_l0'', Parameter 1), (''weight_hh_l0'', Parameter 1)],
      rnn_config = \<lparr>input_size = 768, hidden_size = 256, num_layers = 2, bidirectional = True,
                    gru_dropout = 0.5\<rparr>,
      out = [(''weight'', Parameter 1), (''bias'', Parameter 0)],
      dropout = 0.5, training = True\<rparr>"
  by (simp add: constructed_model_def BERTGRUSentiment_init_def demo_torch_sel demo_bert_def
      new_parameters_def HIDDEN_DIM_def OUTPUT_DIM_def N_LAYERS_def BIDIRECTIONAL_def
      DROPOUT_def Let_def)

text \<open>
  C3 as stated fails between the construction (lines 212-217) and the freezing loops: the
  constructor stores the encoder as it was loaded, with parameters that require grad.
\<close>

theorem encoder_trainable_after_construction:
  "requires_grad_flags (constructed_model demo_torch demo_bert) =
     [(''bert.embeddings.word_embeddings.weight'', True), (''rnn.weight_ih_l0'', True),
      (''rnn.weight_hh_l0'', True), (''out.weight'', True), (''out.bias'', True)]
   \<and> \<not> encoder_frozen (constructed_model demo_torch demo_bert)"
  by (simp add: demo_constructed_model encoder_frozen_iff requires_grad_flags_def
      named_parameters_def add_prefix_def grad_flags_def Parameter_def)

section \<open>The checkpoint follows the best validation loss\<close>

lemma flt_trans: "flt a b \<Longrightarrow> flt b c \<Longrightarrow> flt a c"
  by (cases a; cases b; cases c) simp_all

lemma flt_irrefl [simp]: "\<not> flt a a"
  by (cases a) simp_all

lemma epoch_body_checkpoint_step:
  assumes "epoch_body L criterion ti vi nb = Inr nb'"
  shows "checkpoint_step nb nb'"
proof -
  obtain r m1 opt1 where tr: "train L (model nb) ti (optimizer nb) criterion = (r, m1, opt1)"
    by (cases "train L (model nb) ti (optimizer nb) criterion") auto
  obtain r2 m2 where ev: "evaluate L m1 vi criterion = (r2, m2)"
    by (cases "evaluate L m1 vi criterion") auto
  show ?thesis
    using assms
    by (auto simp: epoch_body_def tr ev Let_def checkpoint_step_def
        split: sum.splits if_splits)
qed

lemma run_epochs_successively:
  "successively checkpoint_step (nb # run_epochs L criterion ti vi n nb)"
proof (induction n arbitrary: nb)
  case 0
  show ?case by simp
next
  case (Suc n)
  show ?case
  proof (cases "epoch_body L criterion ti vi nb")
    case (Inl e)
    then show ?thesis by simp
  next
    case (Inr nb')
    then show ?thesis
      using Suc.IH [of nb'] epoch_body_checkpoint_step [OF Inr] by simp
  qed
qed

lemma checkpoint_losses_below_best:
  "successively checkpoint_step (s # ss) \<Longrightarrow>
   sorted_wrt (\<lambda>a b. flt b a) (checkpoint_losses (s # ss))
   \<and> list_all (\<lambda>v. flt v (best_valid_loss s)) (checkpoint_losses (s # ss))"
proof (induction ss arbitrary: s)
  case Nil
  show ?case by simp
next
  case (Cons s' ss)
  from Cons.prems have st: "checkpoint_step s s'" and rest: "successively checkpoint_step (s' # ss)"
    by simp_all
  from Cons.IH [OF rest]
  have srt: "sorted_wrt (\<lambda>a b. flt b a) (checkpoint_losses (s' # ss))"
    and below: "list_all (\<lambda>v. flt v (best_valid_loss s')) (checkpoint_losses (s' # ss))"
    by simp_all
  from st obtain v where v: "valid_loss s' = Some v"
    and grow: "(length (model_pt s) < length (model_pt s')) = flt v (best_valid_loss s)"
    and best: "best_valid_loss s' = (if flt v (best_valid_loss s) then v else best_valid_loss s)"
    by (auto simp: checkpoint_step_def split: option.splits)
  show ?case
  proof (cases "flt v (best_valid_loss s)")
    case True
    with best have b': "best_valid_loss s' = v" by simp
    have lt_v: "list_all (\<lambda>w. flt w v) (checkpoint_losses (s' # ss))"
      using below by (simp add: b')
    then have "list_all (\<lambda>w. flt w (best_valid_loss s)) (checkpoint_losses (s' # ss))"
      using True by (auto simp: list_all_iff intro: flt_trans)
    with srt lt_v True grow v show ?thesis
      by (simp add: list_all_iff)
  next
    case False
    with best have "best_valid_loss s' = best_valid_loss s" by simp
    with srt below False grow v show ?thesis by simp
  qed
qed

text \<open>
  C2. Along the states of the epoch loop, from any starting state, every completed epoch
  writes the checkpoint file if and only if its validation loss is strictly below the
  running best it started with, writes it at most once, and makes that loss the new
  running best when it writes; the validation losses of the epochs that wrote are strictly
  decreasing. The notebook starts the loop with the running best at positive infinity and
  no checkpoint written.
\<close>

theorem checkpoint_written_iff_validation_improves:
  "successively checkpoint_step (nb # run_epochs L criterion ti vi n nb)
   \<and> sorted_wrt (\<lambda>a b. flt b a) (checkpoint_losses (nb # run_epochs L criterion ti vi n nb))
   \<and> best_valid_loss (notebook_init m :: ('v, 'os) notebook) = PInf
   \<and> model_pt (notebook_init m :: ('v, 'os) notebook) = []"
  using run_epochs_successively [of nb L criterion ti vi n]
    checkpoint_losses_below_best [OF run_epochs_successively [of nb L criterion ti vi n]]
  by (simp add: notebook_init_def)

text \<open>A run of the epoch loop on the example instances: both epochs write.\<close>

lemma demo_frozen_is_trained: "frozen_model demo_torch demo_bert = demo_trained 0 None True"
  by (simp add: demo_frozen_model demo_trained_def Parameter_def)

lemma demo_trained_training [simp]: "demo_trained k g tr\<lparr>training := t\<rparr> = demo_trained k g t"
  by (simp add: demo_trained_def)

lemma demo_train_batch_result:
  "\<exists>acc opt'. train_batch demo_torch demo_criterion (demo_trained k g True) opt
        [([101, 1000, 102], Fin 1)]
      = (Inr (Fin (of_int (1 - 2 * k)), acc), demo_trained (k + 1) (Some 1) True, opt')"
  by (simp add: train_batch_def demo_trained_def Let_def batch_text_def batch_label_def
      zero_grad_def update_parameters_def update_named_def forward_def
      torch_op_def grad_flags_def weights_def demo_torch_sel demo_criterion_def
      binary_accuracy_same_length
      backward_def accumulate_grad_def optimizer_step_def step_parameter_def)

lemma demo_train_result:
  "\<exists>acc opt'. train demo_torch (demo_trained k g tr) demo_iterator opt demo_criterion
      = (Inr (Fin (of_int (1 - 2 * k)), acc), demo_trained (k + 1) (Some 1) True, opt')"
proof -
  obtain acc opt' where "train_batch demo_torch demo_criterion (demo_trained k g True) opt
        [([101, 1000, 102], Fin 1)]
      = (Inr (Fin (of_int (1 - 2 * k)), acc), demo_trained (k + 1) (Some 1) True, opt')"
    using demo_train_batch_result by blast
  then show ?thesis
    by (simp add: train_def demo_iterator_def epoch_means_def fdiv_len_def)
qed

lemma demo_evaluate_result:
  "\<exists>acc. evaluate demo_torch (demo_trained k g tr) demo_iterator demo_criterion
      = (Inr (Fin (of_int (1 - 2 * k)), acc), demo_trained k g False)"
  by (simp add: evaluate_def demo_iterator_def evaluate_batch_Inr epoch_means_def
      fdiv_len_def batch_text_def batch_label_def forward_def torch_op_def weights_def
      demo_torch_sel demo_criterion_def Let_def)
    (simp add: demo_trained_def)

lemma demo_epoch:
  assumes "model nb = demo_trained k g tr"
  shows "\<exists>nb'. epoch_body demo_torch demo_criterion demo_iterator demo_iterator nb = Inr nb'
           \<and> model nb' = demo_trained (k + 1) (Some 1) False
           \<and> valid_loss nb' = Some (Fin (of_int (- 1 - 2 * k)))"
proof -
  obtain acc opt' where tr: "train demo_torch (demo_trained k g tr) demo_iterator (optimizer nb)
      demo_criterion = (Inr (Fin (of_int (1 - 2 * k)), acc), demo_trained (k + 1) (Some 1) True, opt')"
    using demo_train_result by blast
  obtain acc2 where ev: "evaluate demo_torch (demo_trained (k + 1) (Some 1) True) demo_iterator
      demo_criterion = (Inr (Fin (of_int (1 - 2 * (k + 1))), acc2), demo_trained (k + 1) (Some 1) False)"
    using demo_evaluate_result by blast
  show ?thesis
    by (simp add: epoch_body_def assms tr ev Let_def)
qed


lemma demo_run:
  "\<exists>nb1 nb2.
     run_epochs demo_torch demo_criterion demo_iterator demo_iterator N_EPOCHS
       (notebook_init (frozen_model demo_torch demo_bert) :: (int, nat) notebook) = [nb1, nb2]
     \<and> valid_loss nb1 = Some (Fin (- 1)) \<and> valid_loss nb2 = Some (Fin (- 3))"
proof -
  let ?nb0 = "notebook_init (frozen_model demo_torch demo_bert) :: (int, nat) notebook"
  have m0: "model ?nb0 = demo_trained 0 None True"
    by (simp add: notebook_init_def demo_frozen_is_trained)
  from demo_epoch [OF m0] obtain nb1 where
    e1: "epoch_body demo_torch demo_criterion demo_iterator demo_iterator ?nb0 = Inr nb1"
    and m1: "model nb1 = demo_trained 1 (Some 1) False"
    and v1: "valid_loss nb1 = Some (Fin (- 1))"
    by auto
  from demo_epoch [OF m1] obtain nb2 where
    e2: "epoch_body demo_torch demo_criterion demo_iterator demo_iterator nb1 = Inr nb2"
    and v2: "valid_loss nb2 = Some (Fin (- 3))"
    by auto
  have "run_epochs demo_torch demo_criterion demo_iterator demo_iterator (Suc (Suc 0)) ?nb0
      = [nb1, nb2]"
    by (simp add: e1 e2)
  then show ?thesis
    using v1 v2 by (auto simp: N_EPOCHS_def numeral_2_eq_2)
qed

theorem checkpoint_written_iff_validation_improves_witness:
  "checkpoint_losses
     ((notebook_init (frozen_model demo_torch demo_bert) :: (int, nat) notebook)
        # run_epochs demo_torch demo_criterion demo_iterator demo_iterator N_EPOCHS
            (notebook_init (frozen_model demo_torch demo_bert)))
     = [Fin (- 1), Fin (- 3)]
   \<and> sorted_wrt (\<lambda>a b. flt b a)
       (checkpoint_losses
          ((notebook_init (frozen_model demo_torch demo_bert) :: (int, nat) notebook)
             # run_epochs demo_torch demo_criterion demo_iterator demo_iterator N_EPOCHS
                 (notebook_init (frozen_model demo_torch demo_bert))))"
proof -
  let ?nb0 = "notebook_init (frozen_model demo_torch demo_bert) :: (int, nat) notebook"
  obtain nb1 nb2 where
    run: "run_epochs demo_torch demo_criterion demo_iterator demo_iterator N_EPOCHS ?nb0
      = [nb1, nb2]"
    and v1: "valid_loss nb1 = Some (Fin (- 1))" and v2: "valid_loss nb2 = Some (Fin (- 3))"
    using demo_run by blast
  note inst = checkpoint_written_iff_validation_improves
      [of ?nb0 demo_torch demo_criterion demo_iterator demo_iterator N_EPOCHS
        "frozen_model demo_torch demo_bert"]
  have succ: "successively checkpoint_step [?nb0, nb1, nb2]"
    using inst unfolding run by (rule conjunct1)
  then have s01: "checkpoint_step ?nb0 nb1" and s12: "checkpoint_step nb1 nb2"
    by simp_all
  have b0: "best_valid_loss ?nb0 = PInf" by (simp add: notebook_init_def)
  have g1: "length (model_pt ?nb0) < length (model_pt nb1)" and b1: "best_valid_loss nb1 = Fin (- 1)"
    using s01 by (simp_all add: checkpoint_step_def v1 b0)
  have g2: "length (model_pt nb1) < length (model_pt nb2)"
    using s12 by (simp add: checkpoint_step_def v2 b1)
  have "checkpoint_losses (?nb0 # [nb1, nb2]) = [Fin (- 1), Fin (- 3)]"
    using g1 g2 by (simp add: v1 v2)
  then show ?thesis
    using inst by (simp add: run)
qed

section \<open>Runs of the example instances\<close>

text \<open>
  C1 on a sentence of 511 tokens: the model is run on 512 ids (the example library's
  logit, twice the number of ids the encoder got, is 1024).
\<close>

lemma demo_torch_len_sel:
  "bert_call demo_torch_len = (\<lambda>w tr ids. int (length ids))"
  "GRU_call demo_torch_len = (\<lambda>cfg w tr e. e)"
  "select_layer demo_torch_len = (\<lambda>i h. h)"
  "cat demo_torch_len = (\<lambda>a b. a + b)"
  "Dropout_call demo_torch_len = (\<lambda>p tr h. if tr then 0 else h)"
  "Linear_call demo_torch_len = (\<lambda>w h. Fin (of_int h))"
  by (simp_all add: demo_torch_len_def demo_torch_sel)

theorem predict_sentiment_truncates_witness:
  "max_input_length - 2 < int (length (tokenize demo_tokenizer (replicate 511 (CHR ''a''))))
   \<and> predict_indexed demo_tokenizer (replicate 511 (CHR ''a'')) = 101 # replicate 510 1000 @ [102]
   \<and> length (predict_indexed demo_tokenizer (replicate 511 (CHR ''a''))) = 512
   \<and> data (forward demo_torch_len (demo_trained 0 None False) True
              [101 # replicate 510 1000 @ [102]]) = [Fin 1024]
   \<and> predict_sentiment demo_torch_len (demo_trained 0 None True) demo_tokenizer
        (replicate 511 (CHR ''a''))
       = (Inr (fsigmoid (Fin 1024)), demo_trained 0 None False)"
proof -
  have tok: "max_input_length - 2 < int (length (tokenize demo_tokenizer (replicate 511 (CHR ''a''))))"
    by (simp add: demo_tokenizer_def max_input_length_def)
  have ids: "init_token_idx demo_tokenizer
      # convert_tokens_to_ids demo_tokenizer
          (take (nat (max_input_length - 2)) (tokenize demo_tokenizer (replicate 511 (CHR ''a''))))
      @ [eos_token_idx demo_tokenizer] = 101 # replicate 510 1000 @ [102]"
    by (simp add: demo_tokenizer_def max_input_length_def init_token_idx_def eos_token_idx_def
        convert_tokens_to_ids_def take_map map_replicate_const)
  have fw: "data (forward demo_torch_len (demo_trained 0 None False) True
              [101 # replicate 510 1000 @ [102]]) = [Fin 1024]"
    by (simp add: forward_def torch_op_def Let_def demo_torch_len_sel demo_trained_def)
  show ?thesis
    using predict_sentiment_truncates [of demo_tokenizer "replicate 511 (CHR ''a'')"
        demo_torch_len "demo_trained 0 None True"] tok fw
    by (simp add: Let_def ids item_def torch_op_def)
qed

text \<open>C8 on the example library: the logit for the two markers is 1.\<close>

lemma demo_forward_markers:
  "data (forward demo_torch (frozen_model demo_torch demo_bert\<lparr>training := False\<rparr>) True
      [[101, 102]]) = [Fin 1]"
  by (simp add: demo_frozen_model forward_def torch_op_def Let_def weights_def demo_torch_sel
      Parameter_def)

theorem predict_sentiment_empty_string_witness:
  "tokenize demo_tokenizer [] = []
   \<and> predict_indexed demo_tokenizer [] = [101, 102]
   \<and> fst (predict_sentiment demo_torch (frozen_model demo_torch demo_bert) demo_tokenizer [])
       = Inr (fsigmoid (Fin 1))
   \<and> (\<exists>p. fsigmoid (Fin 1) = Fin p \<and> 0 \<le> p \<and> p \<le> 1)"
proof -
  have tok: "tokenize demo_tokenizer [] = []"
    by (simp add: demo_tokenizer_def)
  have ids: "init_token_idx demo_tokenizer = 101" "eos_token_idx demo_tokenizer = 102"
    by (simp_all add: demo_tokenizer_def init_token_idx_def eos_token_idx_def)
  show ?thesis
    using predict_sentiment_empty_string [OF tok, of demo_torch
        "frozen_model demo_torch demo_bert"] tok
    by (auto simp: ids demo_forward_markers)
qed

text \<open>
  C8 as stated fails on a library whose linear layer yields NaN: the value returned for
  the empty string is NaN, which is no probability.
\<close>

lemma nan_torch_sel:
  "bert_call nan_torch = (\<lambda>w tr ids. int (length ids))"
  "GRU_call nan_torch = (\<lambda>cfg w tr e. e)"
  "select_layer nan_torch = (\<lambda>i h. h)"
  "cat nan_torch = (\<lambda>a b. a + b)"
  "Dropout_call nan_torch = (\<lambda>p tr h. if tr then 0 else h)"
  "Linear_call nan_torch = (\<lambda>w h. NaN)"
  by (simp_all add: nan_torch_def demo_torch_sel)

theorem predict_sentiment_empty_string_nan:
  "tokenize demo_tokenizer [] = []
   \<and> fst (predict_sentiment nan_torch (demo_trained 0 None True) demo_tokenizer []) = Inr NaN"
  by (simp add: predict_sentiment_def predict_prediction_def predict_indexed_def
      py_slice_to_def max_input_length_def convert_tokens_to_ids_def demo_tokenizer_def
      forward_def torch_op_def Let_def nan_torch_sel item_def fsigmoid_def)

text \<open>
  C6 on two batches of one and three examples. Training: the per-batch losses are 1 and
  -1 and the per-batch accuracies 1 and 1/3, so the means are 0 and 2/3 (the accuracy
  over the four examples would be 1/2). Evaluation: losses 1 and 1, accuracies 1 and 2/3,
  means 1 and 5/6 (over the four examples 3/4).
\<close>

lemma demo_train_first_batch:
  "\<exists>opt'. train_batch demo_torch demo_criterion (demo_trained 0 None True) opt
        [([101, 1000, 102], Fin 1)]
      = (Inr (Fin 1, Fin 1), demo_trained 1 (Some 1) True, opt')"
  by (simp add: train_batch_def demo_trained_def Let_def batch_text_def batch_label_def
      zero_grad_def update_parameters_def update_named_def forward_def
      torch_op_def grad_flags_def weights_def demo_torch_sel demo_criterion_def
      binary_accuracy_same_length sigmoid_round_pos tensor_mean_def to_float_def
      backward_def accumulate_grad_def optimizer_step_def step_parameter_def)

lemma demo_train_second_batch:
  "\<exists>opt'. train_batch demo_torch demo_criterion (demo_trained 1 (Some 1) True) opt
        [([101, 1000, 102], Fin 1), ([101, 1001, 102], Fin 1), ([101, 1002, 102], Fin 0)]
      = (Inr (Fin (- 1), Fin (1 / 3)), demo_trained 2 (Some 1) True, opt')"
  by (simp add: train_batch_def demo_trained_def Let_def batch_text_def batch_label_def
      zero_grad_def update_parameters_def update_named_def forward_def
      torch_op_def grad_flags_def weights_def demo_torch_sel demo_criterion_def
      binary_accuracy_same_length sigmoid_round_neg tensor_mean_def to_float_def
      backward_def accumulate_grad_def optimizer_step_def step_parameter_def)

lemma demo_train_metrics:
  "train_metrics demo_torch demo_criterion (demo_trained 0 None True) Adam demo_batches
     = [(Fin 1, Fin 1), (Fin (- 1), Fin (1 / 3))]"
proof -
  obtain opt1 where b1: "train_batch demo_torch demo_criterion (demo_trained 0 None True) Adam
        [([101, 1000, 102], Fin 1)]
      = (Inr (Fin 1, Fin 1), demo_trained 1 (Some 1) True, opt1)"
    using demo_train_first_batch by blast
  obtain opt2 where b2: "train_batch demo_torch demo_criterion (demo_trained 1 (Some 1) True) opt1
        [([101, 1000, 102], Fin 1), ([101, 1001, 102], Fin 1), ([101, 1002, 102], Fin 0)]
      = (Inr (Fin (- 1), Fin (1 / 3)), demo_trained 2 (Some 1) True, opt2)"
    using demo_train_second_batch by blast
  show ?thesis
    by (simp add: demo_batches_def b1 b2)
qed

lemma demo_evaluate_metrics:
  "evaluate_metrics demo_torch demo_criterion (demo_trained 0 None False) demo_batches
     = [(Fin 1, Fin 1), (Fin 1, Fin (2 / 3))]"
  by (simp add: demo_batches_def evaluate_batch_Inr batch_text_def batch_label_def
      forward_def torch_op_def weights_def demo_torch_sel demo_criterion_def Let_def
      demo_trained_def sigmoid_round_pos tensor_mean_def to_float_def)

theorem epoch_metrics_are_batch_means_witness:
  "demo_batches \<noteq> []
   \<and> head_trainable (frozen_model demo_torch demo_bert)
   \<and> fst (train demo_torch (frozen_model demo_torch demo_bert) demo_batches Adam demo_criterion)
       = Inr (Fin 0, Fin (2 / 3))
   \<and> fst (evaluate demo_torch (frozen_model demo_torch demo_bert) demo_batches demo_criterion)
       = Inr (Fin 1, Fin (5 / 6))"
proof -
  have ne: "demo_batches \<noteq> []" by (simp add: demo_batches_def)
  have ht: "head_trainable (frozen_model demo_torch demo_bert)"
    by (simp add: demo_frozen_model head_trainable_def grad_flags_def Parameter_def)
  have tm: "train_metrics demo_torch demo_criterion
      (frozen_model demo_torch demo_bert\<lparr>training := True\<rparr>) Adam demo_batches
      = [(Fin 1, Fin 1), (Fin (- 1), Fin (1 / 3))]"
    by (simp add: demo_frozen_is_trained demo_train_metrics)
  have em: "evaluate_metrics demo_torch demo_criterion
      (frozen_model demo_torch demo_bert\<lparr>training := False\<rparr>) demo_batches
      = [(Fin 1, Fin 1), (Fin 1, Fin (2 / 3))]"
    by (simp add: demo_frozen_is_trained demo_evaluate_metrics)
  have am: "arith_mean [Fin 1, Fin (- 1)] = Inr (Fin 0)"
    "arith_mean [Fin 1, Fin (1 / 3)] = Inr (Fin (2 / 3))"
    "arith_mean [Fin 1, Fin 1] = Inr (Fin 1)"
    "arith_mean [Fin 1, Fin (2 / 3)] = Inr (Fin (5 / 6))"
    by (simp_all add: arith_mean_def fdiv_len_def)
  show ?thesis
    using epoch_metrics_are_batch_means [OF ne, of "frozen_model demo_torch demo_bert"
        demo_torch Adam demo_criterion "[]"] ne ht
    by (auto simp: tm em am)
qed

end
